theory Spec2Isabelle
  imports Complex_Main "HOL-Library.Sublist"
begin

section \<open>JavaScript values used by the trade engine\<close>

text \<open>
  The engine (\<^verbatim>\<open>src/index.js\<close>, class \<^verbatim>\<open>PumpTrader\<close>) computes every amount with
  JavaScript \<^verbatim>\<open>BigInt\<close>s, which are unbounded signed integers: they are modelled as
  \<^typ>\<open>int\<close>. An exception is a value: the constructor says which JavaScript error class
  was thrown, the string is its \<^verbatim>\<open>message\<close>. A function that can throw returns
  \<open>js_error + 'a\<close>, with \<open>Inl\<close> for the exception.
\<close>

datatype js_error = Error string | RangeError string | TypeError string

fun message :: "js_error \<Rightarrow> string" where
  "message (Error m) = m"
| "message (RangeError m) = m"
| "message (TypeError m) = m"

text \<open>
  \<^verbatim>\<open>a / b\<close> on BigInts truncates towards zero and throws a \<^verbatim>\<open>RangeError\<close> when the
  divisor is \<^verbatim>\<open>0n\<close>. (HOL's \<open>div\<close> on \<^typ>\<open>int\<close> rounds towards minus infinity and gives
  \<open>0\<close> for a zero divisor, so neither is left to it.)
\<close>

definition bigint_div :: "int \<Rightarrow> int \<Rightarrow> js_error + int" where
  "bigint_div a b =
     (if b = 0 then Inl (RangeError ''Division by zero'')
      else Inr (sgn a * sgn b * (\<bar>a\<bar> div \<bar>b\<bar>)))"

text \<open>
  A JavaScript \<^verbatim>\<open>number\<close> is an IEEE double. The engine uses numbers for counts and loop
  counters only, so the model keeps the integer-valued ones, as \<^typ>\<open>int\<close>, and rounds
  where the double would: \<open>round_double v\<close> is the double nearest to the integer \<open>v\<close>
  (ties to the even mantissa). Integers up to \<open>2^53\<close> in magnitude are exact; beyond,
  only multiples of a power of two survive. It is the value of \<^verbatim>\<open>Number(v)\<close> for a BigInt
  \<open>v\<close>, and of \<^verbatim>\<open>i + 1\<close> and \<^verbatim>\<open>n - 1\<close> computed on numbers. (Magnitudes from
  \<open>2^1024\<close> on, where the double is \<^verbatim>\<open>Infinity\<close>, are outside the model.)
\<close>

function bit_length :: "int \<Rightarrow> nat" where
  "bit_length v = (if v \<le> 0 then 0 else Suc (bit_length (v div 2)))"
  by pat_completeness auto
termination
  by (relation "measure nat") auto

definition round_double :: "int \<Rightarrow> int" where
  "round_double v =
     (if \<bar>v\<bar> < 2 ^ 53 then v
      else (let u = 2 ^ (bit_length \<bar>v\<bar> - 53);
                q = \<bar>v\<bar> div u;
                r = \<bar>v\<bar> mod u;
                q' = (if u < 2 * r \<or> (2 * r = u \<and> odd q) then q + 1 else q)
            in sgn v * (q' * u)))"

section \<open>Data model\<close>

text \<open>The bonding-curve state object built by \<^verbatim>\<open>loadBonding\<close>.\<close>

record BondingCurveState =
  virtualTokenReserves :: int
  virtualSolReserves :: int
  realTokenReserves :: int
  realSolReserves :: int
  tokenTotalSupply :: int
  complete :: bool

text \<open>The pool reserves object built by \<^verbatim>\<open>getAmmPoolReserves\<close>.\<close>

record PoolReserves =
  baseAmount :: int
  quoteAmount :: int
  baseDecimals :: int
  quoteDecimals :: int

section \<open>Pricing engine\<close>

definition AMM_FEE_BPS :: int where
  "AMM_FEE_BPS = 100"

definition BPS_DENOMINATOR :: int where
  "BPS_DENOMINATOR = 10000"

text \<open>
  \<^verbatim>\<open>
  calcBuy(solIn, state) {
    const newVirtualSol = state.virtualSolReserves + solIn;
    const newVirtualToken = (state.virtualSolReserves * state.virtualTokenReserves) / newVirtualSol;
    return state.virtualTokenReserves - newVirtualToken;
  }
  \<close>
\<close>

definition calcBuy :: "int \<Rightarrow> BondingCurveState \<Rightarrow> js_error + int" where
  "calcBuy solIn state =
     (let newVirtualSol = virtualSolReserves state + solIn in
      case bigint_div (virtualSolReserves state * virtualTokenReserves state) newVirtualSol of
        Inl e \<Rightarrow> Inl e
      | Inr newVirtualToken \<Rightarrow> Inr (virtualTokenReserves state - newVirtualToken))"

text \<open>
  \<^verbatim>\<open>
  calcSell(tokenIn, state) {
    const newVirtualToken = state.virtualTokenReserves + tokenIn;
    const newVirtualSol = (state.virtualSolReserves * state.virtualTokenReserves) / newVirtualToken;
    return state.virtualSolReserves - newVirtualSol;
  }
  \<close>
\<close>

definition calcSell :: "int \<Rightarrow> BondingCurveState \<Rightarrow> js_error + int" where
  "calcSell tokenIn state =
     (let newVirtualToken = virtualTokenReserves state + tokenIn in
      case bigint_div (virtualSolReserves state * virtualTokenReserves state) newVirtualToken of
        Inl e \<Rightarrow> Inl e
      | Inr newVirtualSol \<Rightarrow> Inr (virtualSolReserves state - newVirtualSol))"

text \<open>
  \<^verbatim>\<open>
  calculateAmmBuyOutput(quoteIn, reserves) {
    const quoteInAfterFee = (quoteIn * (BPS_DENOMINATOR - AMM_FEE_BPS)) / BPS_DENOMINATOR;
    const numerator = reserves.baseAmount * quoteInAfterFee;
    const denominator = reserves.quoteAmount + quoteInAfterFee;
    return numerator / denominator;
  }
  \<close>
\<close>

definition calculateAmmBuyOutput :: "int \<Rightarrow> PoolReserves \<Rightarrow> js_error + int" where
  "calculateAmmBuyOutput quoteIn reserves =
     (case bigint_div (quoteIn * (BPS_DENOMINATOR - AMM_FEE_BPS)) BPS_DENOMINATOR of
        Inl e \<Rightarrow> Inl e
      | Inr quoteInAfterFee \<Rightarrow>
          (let numerator = baseAmount reserves * quoteInAfterFee;
               denominator = quoteAmount reserves + quoteInAfterFee
           in bigint_div numerator denominator))"

definition calculateAmmSellOutput :: "int \<Rightarrow> PoolReserves \<Rightarrow> js_error + int" where
  "calculateAmmSellOutput baseIn reserves =
     (case bigint_div (baseIn * (BPS_DENOMINATOR - AMM_FEE_BPS)) BPS_DENOMINATOR of
        Inl e \<Rightarrow> Inl e
      | Inr baseInAfterFee \<Rightarrow>
          (let numerator = quoteAmount reserves * baseInAfterFee;
               denominator = baseAmount reserves + baseInAfterFee
           in bigint_div numerator denominator))"

section \<open>Order planner\<close>

text \<open>
  \<^verbatim>\<open>
  splitByMax(total, max) {
    const chunks = [];
    let remaining = total;
    while (remaining > 0n) {
      const chunk = remaining > max ? max : remaining;
      chunks.push(chunk);
      remaining -= chunk;
    }
    return chunks;
  }
  \<close>
  The array is a list, the loop a recursion on the loop variables \<open>remaining\<close> and
  \<open>chunks\<close>. With \<open>max \<le> 0\<close> and a positive total the loop never ends, so the result
  is an option: \<open>None\<close> is the run that does not return.
\<close>

partial_function (option) splitByMax_loop :: "int \<Rightarrow> int \<Rightarrow> int list \<Rightarrow> int list option" where
  "splitByMax_loop mx remaining chunks =
     (if remaining > 0 then
        (let chunk = (if remaining > mx then mx else remaining) in
         splitByMax_loop mx (remaining - chunk) (chunks @ [chunk]))
      else Some chunks)"

declare splitByMax_loop.simps [code]

definition splitByMax :: "int \<Rightarrow> int \<Rightarrow> int list option" where
  "splitByMax total' mx = splitByMax_loop mx total' []"

text \<open>
  \<^verbatim>\<open>
  splitIntoN(total, n) {
    const chunks = [];
    const part = total / BigInt(n);
    let remaining = total;
    for (let i = 0; i < n; i++) {
      const chunk = i === n - 1 ? remaining : part;
      chunks.push(chunk);
      remaining -= chunk;
    }
    return chunks;
  }
  \<close>
  \<open>n\<close> and \<open>i\<close> are numbers: \<^verbatim>\<open>i++\<close> and \<^verbatim>\<open>n - 1\<close> round as doubles do. The counter
  cannot pass \<open>2^53\<close>, so for a larger \<open>n\<close> the loop does not end (\<open>None\<close>).
\<close>

partial_function (option) splitIntoN_loop ::
  "int \<Rightarrow> int \<Rightarrow> int \<Rightarrow> int \<Rightarrow> int list \<Rightarrow> int list option" where
  "splitIntoN_loop n part i remaining chunks =
     (if i < n then
        (let chunk = (if i = round_double (n - 1) then remaining else part) in
         splitIntoN_loop n part (round_double (i + 1)) (remaining - chunk) (chunks @ [chunk]))
      else Some chunks)"

declare splitIntoN_loop.simps [code]

definition splitIntoN :: "int \<Rightarrow> int \<Rightarrow> (js_error + int list) option" where
  "splitIntoN total' n =
     (case bigint_div total' n of
        Inl e \<Rightarrow> Some (Inl e)
      | Inr part \<Rightarrow> map_option Inr (splitIntoN_loop n part 0 total' []))"

text \<open>
  The sell-side plan, lines 730 to 736 of \<^verbatim>\<open>sell\<close>:
  \<^verbatim>\<open>
  const totalSolOut = this.calcSell(totalTokenIn, state);
  const tokenChunks = totalSolOut <= tradeOpt.maxSolPerTx
    ? [totalTokenIn]
    : this.splitIntoN(
      totalTokenIn,
      Number((totalSolOut + tradeOpt.maxSolPerTx - 1n) / tradeOpt.maxSolPerTx)
    );
  \<close>
  \<open>plan_tokenChunks\<close> is the conditional expression, which \<^verbatim>\<open>ammSell\<close> repeats word for word
  on its own quote; \<open>sell_tokenChunks\<close> is the two statements of \<^verbatim>\<open>sell\<close> together.
\<close>

definition plan_tokenChunks :: "int \<Rightarrow> int \<Rightarrow> int \<Rightarrow> (js_error + int list) option" where
  "plan_tokenChunks totalSolOut totalTokenIn maxSolPerTx =
     (if totalSolOut \<le> maxSolPerTx then Some (Inr [totalTokenIn])
      else (case bigint_div (totalSolOut + maxSolPerTx - 1) maxSolPerTx of
              Inl e \<Rightarrow> Some (Inl e)
            | Inr q \<Rightarrow> splitIntoN totalTokenIn (round_double q)))"

definition sell_tokenChunks :: "int \<Rightarrow> BondingCurveState \<Rightarrow> int \<Rightarrow> (js_error + int list) option" where
  "sell_tokenChunks totalTokenIn state maxSolPerTx =
     (case calcSell totalTokenIn state of
        Inl e \<Rightarrow> Some (Inl e)
      | Inr totalSolOut \<Rightarrow> plan_tokenChunks totalSolOut totalTokenIn maxSolPerTx)"

section \<open>Confirmation poller\<close>

text \<open>
  JavaScript strings are modelled as \<^typ>\<open>string\<close>, holding the UTF-8 bytes of the text.
  The poller's messages are Chinese; \<open>utf8\<close> builds a string from the byte values.
  \<^verbatim>\<open>s.includes(t)\<close> holds when \<open>t\<close> occurs in \<open>s\<close> as a contiguous run.
\<close>

definition utf8 :: "nat list \<Rightarrow> string" where
  "utf8 bytes = map char_of bytes"

definition string_includes :: "string \<Rightarrow> string \<Rightarrow> bool" where
  "string_includes s t = sublist t s"

text \<open>
  An integer-valued number in a template literal prints in decimal (for magnitudes below
  \<open>10^21\<close>; larger ones, printed with an exponent, are outside the model).
\<close>

function decimal_digits :: "int \<Rightarrow> string" where
  "decimal_digits v =
     (if v < 10 then [char_of (48 + v)]
      else decimal_digits (v div 10) @ [char_of (48 + v mod 10)])"
  by pat_completeness auto
termination
  by (relation "measure nat") auto

definition number_toString :: "int \<Rightarrow> string" where
  "number_toString v = (if v < 0 then ''-'' @ decimal_digits (- v) else decimal_digits v)"

text \<open>
  What \<^verbatim>\<open>connection.getTransaction\<close> resolves to: \<^verbatim>\<open>null\<close> (\<open>None\<close>) or a response
  whose \<^verbatim>\<open>meta\<close> may be \<^verbatim>\<open>null\<close>. The poller reads \<^verbatim>\<open>meta.err\<close> only: \<open>err\<close> is \<open>None\<close>
  for \<^verbatim>\<open>null\<close>, and otherwise holds the text \<^verbatim>\<open>JSON.stringify\<close> gives for the error
  payload (the ledger's payloads are objects and non-empty strings, all truthy).
\<close>

datatype TransactionMeta = TransactionMeta (err: "string option")

datatype TransactionResponse = TransactionResponse (meta: "TransactionMeta option")

text \<open>
  The two queries of the poller. Their answers change from one attempt to the next, so
  the source of answers is a sequence: the argument is the number of attempts made
  before (0 for the first attempt). \<open>Inl\<close> is a query that throws.
\<close>

record status_source =
  getTransaction :: "nat \<Rightarrow> js_error + TransactionResponse option"
  getBlockHeight :: "nat \<Rightarrow> js_error + int"

text \<open>
  The two markers the \<^verbatim>\<open>catch\<close> block looks for, the four characters U+4EA4 U+6613
  U+5931 U+8D25 ("transaction failed", \<open>TX_FAILED\<close>) and the four characters U+4EA4 U+6613
  U+8FC7 U+671F ("transaction expired", \<open>TX_EXPIRED\<close>), and the
  three errors the poller throws itself: the rejection, marker plus \<^verbatim>\<open>': '\<close> plus the
  JSON of the payload; the expiry, a fixed sentence that starts with the second marker;
  and the timeout, a template around \<^verbatim>\<open>maxAttempts\<close> and the signature.
\<close>

definition TX_FAILED :: string where
  "TX_FAILED = utf8 [228, 186, 164, 230, 152, 147, 229, 164, 177, 232, 180, 165]"

definition TX_EXPIRED :: string where
  "TX_EXPIRED = utf8 [228, 186, 164, 230, 152, 147, 232, 191, 135, 230, 156, 159]"

definition rejected_error :: "string \<Rightarrow> js_error" where
  "rejected_error errJson = Error (TX_FAILED @ '': '' @ errJson)"

definition expired_error :: js_error where
  "expired_error =
     Error (TX_EXPIRED @ utf8 [239, 188, 154, 230, 156, 170, 229, 156, 168, 230, 156, 137,
       230, 149, 136, 229, 140, 186, 229, 157, 151, 233, 171, 152, 229, 186, 166, 229, 134, 133,
       231, 161, 174, 232, 174, 164])"

definition timeout_error :: "int \<Rightarrow> string \<Rightarrow> js_error" where
  "timeout_error maxAttempts signature =
     Error (utf8 [228, 186, 164, 230, 152, 147, 231, 161, 174, 232, 174, 164, 232, 182, 133,
                  230, 151, 182, 239, 188, 136, 229, 183, 178, 229, 176, 157, 232, 175, 149, 32]
            @ number_toString maxAttempts
            @ utf8 [32, 230, 172, 161, 239, 188, 137, 239, 188, 140, 231, 173, 190, 229, 144,
                    141, 58, 32]
            @ signature
            @ utf8 [227, 128, 130, 232, 175, 183, 230, 137, 139, 229, 138, 168, 230, 163, 128,
                    230, 159, 165, 228, 186, 164, 230, 152, 147, 231, 138, 182, 230, 128, 129,
                    227, 128, 130])"

text \<open>
  \<^verbatim>\<open>
  async confirmTransactionWithPolling(signature, lastValidBlockHeight, maxAttempts = 5, delayMs = 2000) {
    for (let attempt = 1; attempt <= maxAttempts; attempt++) {
      await new Promise(resolve => setTimeout(resolve, delayMs));
      try {
        const txInfo = await this.connection.getTransaction(signature, {...});
        if (txInfo) {
          if (txInfo.meta?.err) {
            throw new Error('<failed>: ' + JSON.stringify(txInfo.meta.err));
          }
          return signature;
        }
        const currentBlockHeight = await this.connection.getBlockHeight('finalized');
        if (currentBlockHeight > lastValidBlockHeight) {
          throw new Error('<expired>...');
        }
      } catch (error) {
        if (error.message?.includes('<failed>') || error.message?.includes('<expired>')) {
          throw error;
        }
      }
    }
    throw new Error(`<timeout, ${maxAttempts}, ${signature}>`);
  }
  \<close>
  (logging left out, the Chinese literals abbreviated). \<open>poll_try\<close> is the \<^verbatim>\<open>try\<close> block
  of attempt number \<open>k\<close>: \<open>Inl\<close> when it throws, \<open>Inr (Some signature)\<close> when it returns,
  \<open>Inr None\<close> when it falls through. \<open>poll_rethrows\<close> is the test of the \<^verbatim>\<open>catch\<close> block.
  The loop counts attempts in the number \<open>attempt\<close>; the model also counts the queries made
  (\<open>k\<close>) and returns that count with the outcome. The delay is not modelled. A run that
  polls for ever is \<open>None\<close>.
\<close>

definition poll_try :: "status_source \<Rightarrow> string \<Rightarrow> int \<Rightarrow> nat \<Rightarrow> js_error + string option" where
  "poll_try connection signature lastValidBlockHeight k =
     (case getTransaction connection k of
        Inl e \<Rightarrow> Inl e
      | Inr (Some txInfo) \<Rightarrow>
          (case meta txInfo of
             None \<Rightarrow> Inr (Some signature)
           | Some m \<Rightarrow>
               (case err m of
                  Some errJson \<Rightarrow> Inl (rejected_error errJson)
                | None \<Rightarrow> Inr (Some signature)))
      | Inr None \<Rightarrow>
          (case getBlockHeight connection k of
             Inl e \<Rightarrow> Inl e
           | Inr currentBlockHeight \<Rightarrow>
               if currentBlockHeight > lastValidBlockHeight then Inl expired_error
               else Inr None))"

definition poll_rethrows :: "js_error \<Rightarrow> bool" where
  "poll_rethrows error \<longleftrightarrow>
     string_includes (message error) TX_FAILED \<or> string_includes (message error) TX_EXPIRED"

partial_function (option) poll_loop ::
  "status_source \<Rightarrow> string \<Rightarrow> int \<Rightarrow> int \<Rightarrow> int \<Rightarrow> nat \<Rightarrow> ((js_error + string) \<times> nat) option" where
  "poll_loop connection signature lastValidBlockHeight maxAttempts attempt k =
     (if attempt \<le> maxAttempts then
        (case poll_try connection signature lastValidBlockHeight k of
           Inr (Some s) \<Rightarrow> Some (Inr s, Suc k)
         | Inr None \<Rightarrow>
             poll_loop connection signature lastValidBlockHeight maxAttempts
               (round_double (attempt + 1)) (Suc k)
         | Inl error \<Rightarrow>
             if poll_rethrows error then Some (Inl error, Suc k)
             else poll_loop connection signature lastValidBlockHeight maxAttempts
                    (round_double (attempt + 1)) (Suc k))
      else Some (Inl (timeout_error maxAttempts signature), k))"

declare poll_loop.simps [code]

definition confirmTransactionWithPolling ::
  "status_source \<Rightarrow> string \<Rightarrow> int \<Rightarrow> int \<Rightarrow> ((js_error + string) \<times> nat) option" where
  "confirmTransactionWithPolling connection signature lastValidBlockHeight maxAttempts =
     poll_loop connection signature lastValidBlockHeight maxAttempts 1 0"

subsection \<open>The state machine of the specification\<close>

text \<open>
  The specification describes the poller as a machine with the states Polling, Confirmed,
  Failed, Expired and TimedOut. These definitions follow its words, not the code: at each
  attempt the status is fetched; found with an error payload gives Failed, found without
  gives Confirmed; not found with the finalized block height above the expiry ceiling
  gives Expired, and otherwise the machine stays in Polling; a query error is swallowed
  and uses up the attempt; when the attempts are used up in Polling the machine is
  TimedOut. \<open>spec_poll_run\<close> returns the final state and the number of attempts used.
\<close>

datatype poll_state = Polling | Confirmed | Failed string | Expired | TimedOut







section \<open>Buffers and public keys\<close>

text \<open>
  A Node \<^verbatim>\<open>Buffer\<close> is a list of bytes, each a natural number below 256. The readers the
  engine uses: \<^verbatim>\<open>buf.slice(start, end)\<close> (and \<^verbatim>\<open>subarray\<close>) clips to the buffer;
  \<^verbatim>\<open>buf.readBigUInt64LE(offset)\<close> and \<^verbatim>\<open>buf.readBigInt64LE(offset)\<close> read eight bytes,
  least significant first, and throw a \<^verbatim>\<open>RangeError\<close> when fewer than eight bytes are
  left at the offset (Node's two messages are reproduced); \<^verbatim>\<open>buf[offset] === 1\<close> is false beyond the end (the read gives
  \<^verbatim>\<open>undefined\<close>).
\<close>

type_synonym buffer = "nat list"

definition slice :: "buffer \<Rightarrow> nat \<Rightarrow> nat \<Rightarrow> buffer" where
  "slice buf start end' = take (end' - start) (drop start buf)"

fun le_value :: "buffer \<Rightarrow> int" where
  "le_value [] = 0"
| "le_value (b # bs) = int b + 256 * le_value bs"

fun be_value :: "buffer \<Rightarrow> int" where
  "be_value bs = le_value (rev bs)"

definition readBigUInt64LE :: "buffer \<Rightarrow> nat \<Rightarrow> js_error + int" where
  "readBigUInt64LE buf offset =
     (if offset + 8 \<le> length buf then Inr (le_value (slice buf offset (offset + 8)))
      else if length buf < 8
      then Inl (RangeError ''Attempt to access memory outside buffer bounds'')
      else Inl (RangeError
                  (''The value of \"offset\" is out of range. It must be >= 0 and <= ''
                   @ number_toString (int (length buf) - 8)
                   @ ''. Received '' @ number_toString (int offset))))"

definition readBigInt64LE :: "buffer \<Rightarrow> nat \<Rightarrow> js_error + int" where
  "readBigInt64LE buf offset =
     (case readBigUInt64LE buf offset of
        Inl e \<Rightarrow> Inl e
      | Inr v \<Rightarrow> Inr (if v < 2 ^ 63 then v else v - 2 ^ 64))"

definition byte_is_one :: "buffer \<Rightarrow> nat \<Rightarrow> bool" where
  "byte_is_one buf offset \<longleftrightarrow> offset < length buf \<and> buf ! offset = 1"

text \<open>
  \<^verbatim>\<open>Buffer.from(s, "base64")\<close>: decoding stops at the first \<^verbatim>\<open>=\<close>, characters outside the
  alphabet are skipped, both the standard and the URL-safe alphabet are accepted, and
  every four characters give three bytes (a trailing group of two or three characters
  gives one or two bytes). This is the decoder on text of single-byte characters,
  which is what the lines of a program log are.
\<close>

definition sextet :: "char \<Rightarrow> nat option" where
  "sextet c =
     (let n = (of_char c :: nat) in
      if 65 \<le> n \<and> n \<le> 90 then Some (n - 65)
      else if 97 \<le> n \<and> n \<le> 122 then Some (n - 71)
      else if 48 \<le> n \<and> n \<le> 57 then Some (n + 4)
      else if n = 43 \<or> n = 45 then Some 62
      else if n = 47 \<or> n = 95 then Some 63
      else None)"

fun base64_groups :: "nat list \<Rightarrow> buffer" where
  "base64_groups (a # b # c # d # rest) =
     [a * 4 + b div 16, (b mod 16) * 16 + c div 4, (c mod 4) * 64 + d] @ base64_groups rest"
| "base64_groups [a, b, c] = [a * 4 + b div 16, (b mod 16) * 16 + c div 4]"
| "base64_groups [a, b] = [a * 4 + b div 16]"
| "base64_groups [a] = []"
| "base64_groups [] = []"

definition Buffer_from_base64 :: "string \<Rightarrow> buffer" where
  "Buffer_from_base64 s =
     base64_groups (List.map_filter sextet (takeWhile (\<lambda>c. c \<noteq> CHR ''='') s))"

text \<open>
  A \<^verbatim>\<open>PublicKey\<close> of web3.js holds a number (\<^verbatim>\<open>_bn\<close>). Built from bytes, it reads them as
  a big-endian number and throws when the number needs more than 32 bytes. \<^verbatim>\<open>a.equals(b)\<close>
  compares the numbers, which is equality of the modelled values.
\<close>

datatype PublicKey = PublicKey (bn: int)

definition PublicKey_from_buffer :: "buffer \<Rightarrow> js_error + PublicKey" where
  "PublicKey_from_buffer bytes =
     (if be_value bytes < 2 ^ 256 then Inr (PublicKey (be_value bytes))
      else Inl (Error ''Invalid public key input''))"

text \<open>
  Base58, as \<^verbatim>\<open>bs58\<close> does it: every leading zero byte is a leading \<^verbatim>\<open>1\<close>, the rest is
  the big-endian number written in base 58. \<^verbatim>\<open>key.toBuffer()\<close> is the number on 32
  bytes, \<^verbatim>\<open>key.toBase58()\<close> its encoding. Built from a string, a \<^verbatim>\<open>PublicKey\<close> decodes
  it and throws unless exactly 32 bytes come out.
\<close>

definition BASE58_ALPHABET :: string where
  "BASE58_ALPHABET = ''123456789ABCDEFGHJKLMNPQRSTUVWXYZabcdefghijkmnopqrstuvwxyz''"

function base58_digits :: "int \<Rightarrow> string" where
  "base58_digits v =
     (if v \<le> 0 then []
      else base58_digits (v div 58) @ [BASE58_ALPHABET ! nat (v mod 58)])"
  by pat_completeness auto
termination
  by (relation "measure nat") auto

function be_bytes :: "int \<Rightarrow> buffer" where
  "be_bytes v = (if v \<le> 0 then [] else be_bytes (v div 256) @ [nat (v mod 256)])"
  by pat_completeness auto
termination
  by (relation "measure nat") auto

definition toBuffer :: "PublicKey \<Rightarrow> buffer" where
  "toBuffer key = (let b = be_bytes (bn key) in replicate (32 - length b) 0 @ b)"

definition bs58_encode :: "buffer \<Rightarrow> string" where
  "bs58_encode source =
     replicate (length (takeWhile (\<lambda>b. b = 0) source)) (CHR ''1'') @ base58_digits (be_value source)"

definition toBase58 :: "PublicKey \<Rightarrow> string" where
  "toBase58 key = bs58_encode (toBuffer key)"

fun index_of :: "'a \<Rightarrow> 'a list \<Rightarrow> nat" where
  "index_of x [] = 0"
| "index_of x (y # ys) = (if x = y then 0 else Suc (index_of x ys))"

definition bs58_decode :: "string \<Rightarrow> js_error + buffer" where
  "bs58_decode source =
     (if \<exists>c \<in> set source. c \<notin> set BASE58_ALPHABET then Inl (Error ''Non-base58 character'')
      else Inr (replicate (length (takeWhile (\<lambda>c. c = CHR ''1'') source)) 0
                @ be_bytes (fold (\<lambda>c acc. acc * 58 + int (index_of c BASE58_ALPHABET)) source 0)))"

definition PublicKey_from_string :: "string \<Rightarrow> js_error + PublicKey" where
  "PublicKey_from_string s =
     (case bs58_decode s of
        Inl e \<Rightarrow> Inl e
      | Inr decoded \<Rightarrow>
          if length decoded \<noteq> 32 then Inl (Error ''Invalid public key input'')
          else Inr (PublicKey (be_value decoded)))"

section \<open>Event decoder\<close>

text \<open>
  \<^verbatim>\<open>
  listenTrades(callback, mintFilter = null) {
    return this.connection.onLogs(
      PROGRAM_IDS.PUMP,
      (log) => {
        for (const logLine of log.logs) {
          if (!logLine.startsWith("Program data: ")) continue;
          const buf = Buffer.from(logLine.replace("Program data: ", ""), "base64");
          if (!buf.subarray(0, 8).equals(DISCRIMINATORS.TRADE_EVENT)) continue;
          let offset = 8;
          const mint = new PublicKey(buf.slice(offset, offset + 32));
          offset += 32;
          if (mintFilter && !mint.equals(mintFilter)) return;
          const solAmount = buf.readBigUInt64LE(offset);
          offset += 8;
          const tokenAmount = buf.readBigUInt64LE(offset);
          offset += 8;
          const isBuy = buf[offset++] === 1;
          const user = new PublicKey(buf.slice(offset, offset + 32));
          offset += 32;
          const timestamp = Number(buf.readBigInt64LE(offset));
          callback({ mint: mint.toBase58(), solAmount, tokenAmount, isBuy,
                     user: user.toBase58(), timestamp, signature: log.signature });
        }
      },
      "confirmed"
    );
  }
  \<close>
  The model is the handler that \<^verbatim>\<open>onLogs\<close> is given, run on one log message.
  \<open>decode_line\<close> is one pass through the loop body and says how it ends: with
  \<^verbatim>\<open>continue\<close> (\<open>Skip\<close>), with \<^verbatim>\<open>return\<close> (\<open>Return\<close>), with an exception (\<open>Throw\<close>), or
  at the bottom after the callback was called with an event (\<open>Callback\<close>).
  \<open>onLogs_lines\<close> is the loop; \<open>listenTrades\<close> gives the events the callback received, in
  order, and the exception that ended the handler, if any. A filter of \<^verbatim>\<open>null\<close> is
  \<open>None\<close>. (The field \<^verbatim>\<open>signature\<close> of the event is \<open>event_signature\<close> here, that of the
  message \<open>log_signature\<close>.)
\<close>

definition TRADE_EVENT :: buffer where
  "TRADE_EVENT = [189, 219, 127, 211, 78, 230, 97, 238]"

record TradeEvent =
  mint :: string
  solAmount :: int
  tokenAmount :: int
  isBuy :: bool
  user :: string
  timestamp :: int
  event_signature :: string

record Logs =
  logs :: "string list"
  log_signature :: string

definition startsWith :: "string \<Rightarrow> string \<Rightarrow> bool" where
  "startsWith s t = prefix t s"

datatype line_outcome = Skip | Return | Throw js_error | Callback TradeEvent

definition decode_line :: "PublicKey option \<Rightarrow> string \<Rightarrow> string \<Rightarrow> line_outcome" where
  "decode_line mintFilter sig logLine =
     (if \<not> startsWith logLine ''Program data: '' then Skip
      else
        let buf = Buffer_from_base64 (drop (length ''Program data: '') logLine) in
        if slice buf 0 8 \<noteq> TRADE_EVENT then Skip
        else
          (case PublicKey_from_buffer (slice buf 8 40) of
             Inl e \<Rightarrow> Throw e
           | Inr mintKey \<Rightarrow>
               if mintFilter \<noteq> None \<and> mintKey \<noteq> the mintFilter then Return
               else
                 (case readBigUInt64LE buf 40 of
                    Inl e \<Rightarrow> Throw e
                  | Inr solAmt \<Rightarrow>
                      (case readBigUInt64LE buf 48 of
                         Inl e \<Rightarrow> Throw e
                       | Inr tokenAmt \<Rightarrow>
                           (case PublicKey_from_buffer (slice buf 57 89) of
                              Inl e \<Rightarrow> Throw e
                            | Inr userKey \<Rightarrow>
                                (case readBigInt64LE buf 89 of
                                   Inl e \<Rightarrow> Throw e
                                 | Inr ts \<Rightarrow>
                                     Callback
                                       \<lparr>mint = toBase58 mintKey,
                                        solAmount = solAmt,
                                        tokenAmount = tokenAmt,
                                        isBuy = byte_is_one buf 56,
                                        user = toBase58 userKey,
                                        timestamp = round_double ts,
                                        event_signature = sig\<rparr>))))))"

fun onLogs_lines :: "PublicKey option \<Rightarrow> string \<Rightarrow> string list \<Rightarrow> TradeEvent list \<times> js_error option" where
  "onLogs_lines mintFilter sig [] = ([], None)"
| "onLogs_lines mintFilter sig (logLine # rest) =
     (case decode_line mintFilter sig logLine of
        Skip \<Rightarrow> onLogs_lines mintFilter sig rest
      | Return \<Rightarrow> ([], None)
      | Throw e \<Rightarrow> ([], Some e)
      | Callback event \<Rightarrow>
          (case onLogs_lines mintFilter sig rest of
             (events, thrown) \<Rightarrow> (event # events, thrown)))"

definition listenTrades :: "PublicKey option \<Rightarrow> Logs \<Rightarrow> TradeEvent list \<times> js_error option" where
  "listenTrades mintFilter log' = onLogs_lines mintFilter (log_signature log') (logs log')"

section \<open>State reader\<close>

text \<open>\<open>bind_result r f\<close> runs \<open>f\<close> on the value of \<open>r\<close>, and passes on the exception of \<open>r\<close>.\<close>

definition bind_result :: "js_error + 'a \<Rightarrow> ('a \<Rightarrow> js_error + 'b) \<Rightarrow> js_error + 'b" where
  "bind_result r f = (case r of Inl e \<Rightarrow> Inl e | Inr v \<Rightarrow> f v)"

text \<open>
  \<^verbatim>\<open>Buffer.from(text)\<close> on the ASCII seeds, the two program ids (as their base58 text),
  and the wrapped-SOL mint \<^verbatim>\<open>So11111111111111111111111111111111111111112\<close>.
\<close>

definition Buffer_from_text :: "string \<Rightarrow> buffer" where
  "Buffer_from_text s = map of_char s"

definition PUMP :: string where
  "PUMP = ''6EF8rrecthR5Dkzon8Nwu78hRvfCKubJ14M5uBEwF6P''"

definition PUMP_AMM :: string where
  "PUMP_AMM = ''pAMMBay6oceH9fJKBRHGP5D4bD4sWpmSwMn52FMfXEA''"

definition SOL_MINT :: PublicKey where
  "SOL_MINT = PublicKey 2988679396378646993494765771507681406623014513651778753134412041978399162369"

text \<open>
  The collaborators of the engine. \<open>environment\<close> holds what the ledger answers to the
  queries, as functions of the query (one snapshot of the ledger; \<open>Inl\<close> is a query that
  throws), and two functions that the model does not open:
  \<^item> \<open>findProgramAddressSync seeds programId\<close>, the address derivation of web3.js (the
    first component of its result);
  \<^item> \<open>submitOrder\<close>, the rest of one pass through a trade loop after the quote: the
    slippage bound, the priority fee, building the transaction, creating token accounts,
    fetching a blockhash, signing and sending. It is given the order (which trade, its
    index in the plan, the amount, the quote, the caller's options) and either throws
    or gives the signature and the block-height ceiling of the transaction it sent.
  \<open>getMint\<close> is the lookup of the token library, of which \<^verbatim>\<open>detectTokenProgram\<close> uses only
  whether it throws. The amount of a token balance is the integer that
  \<^verbatim>\<open>BigInt(info.value.amount)\<close> reads from the ledger's decimal text. The slippage and
  priority options are numbers and may be fractions.
\<close>

datatype TokenProgram = TOKEN_2022_PROGRAM_ID | TOKEN_PROGRAM_ID

record AccountInfo =
  data :: buffer

record TokenAmount =
  amount :: int
  decimals :: int

record SlippageOptions =
  slippage_base :: real
  slippage_max :: "real option"
  slippage_min :: "real option"
  impactFactor :: "real option"

record PriorityOptions =
  priority_base :: real
  enableRandom :: "bool option"
  randomRange :: "real option"

record TradeOptions =
  maxSolPerTx :: int
  slippage :: SlippageOptions
  priority :: PriorityOptions

datatype order_kind = CurveBuy | CurveSell | AmmBuy | AmmSell

record order =
  kind :: order_kind
  order_index :: nat
  amountIn :: int
  quotedOut :: int
  options :: TradeOptions

record environment =
  getAccountInfo :: "PublicKey \<Rightarrow> js_error + AccountInfo option"
  getMint :: "PublicKey \<Rightarrow> TokenProgram \<Rightarrow> js_error + unit"
  getTokenAccountBalance :: "PublicKey \<Rightarrow> js_error + TokenAmount"
  findProgramAddressSync :: "buffer list \<Rightarrow> string \<Rightarrow> PublicKey"
  submitOrder :: "order \<Rightarrow> js_error + string \<times> int"

record GlobalState =
  initialized :: bool
  authority :: PublicKey
  feeRecipient :: PublicKey
  withdrawAuthority :: PublicKey
  initialVirtualTokenReserves :: int
  initialVirtualSolReserves :: int
  initialRealTokenReserves :: int
  global_tokenTotalSupply :: int
  feeBasisPoints :: int

text \<open>
  The mutable fields of a \<^verbatim>\<open>PumpTrader\<close>: the cached global configuration and the
  cache of detected token programs. \<open>submitted\<close> is not a field of the class: it records
  every order handed to \<open>submitOrder\<close>, oldest first, so that "no transaction is sent" is
  a statement about the state.
\<close>

record PumpTrader =
  globalState :: "GlobalState option"
  tokenProgramCache :: "string \<rightharpoonup> TokenProgram"
  submitted :: "order list"

record BondingInfo =
  bonding :: PublicKey
  state :: BondingCurveState
  creator :: PublicKey

record PendingTransaction =
  signature :: string
  lastValidBlockHeight :: int
  index :: nat

record FailedTransaction =
  failed_index :: nat
  error :: string

record TradeResult =
  pendingTransactions :: "PendingTransaction list"
  failedTransactions :: "FailedTransaction list"

text \<open>
  \<^verbatim>\<open>
  async detectTokenProgram(tokenAddr) {
    if (this.tokenProgramCache.has(tokenAddr)) return this.tokenProgramCache.get(tokenAddr);
    const mint = new PublicKey(tokenAddr);
    try {
      const mintData = await getMint(this.connection, mint, "confirmed", TOKEN_2022_PROGRAM_ID);
      const result = { type: "TOKEN_2022_PROGRAM_ID", programId: TOKEN_2022_PROGRAM_ID };
      this.tokenProgramCache.set(tokenAddr, result);
      return result;
    } catch (e) {
      try {
        const mintData = await getMint(this.connection, mint, "confirmed", TOKEN_PROGRAM_ID);
        const result = { type: "TOKEN_PROGRAM_ID", programId: TOKEN_PROGRAM_ID };
        this.tokenProgramCache.set(tokenAddr, result);
        return result;
      } catch (error) {
        throw new Error(`Failed to detect token program for ${tokenAddr}: ${error}`);
      }
    }
  }
  \<close>
  \<open>error_toString\<close> is what the template literal prints for an error of the three
  classes of \<open>js_error\<close>; an error of a class of the token library prints its own class
  name in place of \<^verbatim>\<open>Error\<close>.
\<close>

fun error_toString :: "js_error \<Rightarrow> string" where
  "error_toString (Error m) = (if m = [] then ''Error'' else ''Error: '' @ m)"
| "error_toString (RangeError m) = (if m = [] then ''RangeError'' else ''RangeError: '' @ m)"
| "error_toString (TypeError m) = (if m = [] then ''TypeError'' else ''TypeError: '' @ m)"

definition detectTokenProgram ::
  "environment \<Rightarrow> PumpTrader \<Rightarrow> string \<Rightarrow> (js_error + TokenProgram) \<times> PumpTrader" where
  "detectTokenProgram env trader tokenAddr =
     (case tokenProgramCache trader tokenAddr of
        Some cached \<Rightarrow> (Inr cached, trader)
      | None \<Rightarrow>
          (case PublicKey_from_string tokenAddr of
             Inl e \<Rightarrow> (Inl e, trader)
           | Inr mintKey \<Rightarrow>
               (case getMint env mintKey TOKEN_2022_PROGRAM_ID of
                  Inr _ \<Rightarrow>
                    (Inr TOKEN_2022_PROGRAM_ID,
                     trader\<lparr>tokenProgramCache :=
                       (tokenProgramCache trader)(tokenAddr \<mapsto> TOKEN_2022_PROGRAM_ID)\<rparr>)
                | Inl e \<Rightarrow>
                    (case getMint env mintKey TOKEN_PROGRAM_ID of
                       Inr _ \<Rightarrow>
                         (Inr TOKEN_PROGRAM_ID,
                          trader\<lparr>tokenProgramCache :=
                            (tokenProgramCache trader)(tokenAddr \<mapsto> TOKEN_PROGRAM_ID)\<rparr>)
                     | Inl error' \<Rightarrow>
                         (Inl (Error (''Failed to detect token program for '' @ tokenAddr
                                      @ '': '' @ error_toString error')),
                          trader)))))"

text \<open>
  \<^verbatim>\<open>
  async loadGlobal() {
    const acc = await this.connection.getAccountInfo(this.global);
    if (!acc) throw new Error("Global account not found");
    const data = acc.data;
    let offset = 8;
    const readBool = () => data[offset++] === 1;
    const readPk = () => { const pk = new PublicKey(data.slice(offset, offset + 32)); offset += 32; return pk; };
    const readU64 = () => { const v = data.readBigUInt64LE(offset); offset += 8; return v; };
    this.globalState = {
      initialized: readBool(), authority: readPk(), feeRecipient: readPk(),
      withdrawAuthority: readPk(), initialVirtualTokenReserves: readU64(),
      initialVirtualSolReserves: readU64(), initialRealTokenReserves: readU64(),
      tokenTotalSupply: readU64(), feeBasisPoints: readU64()
    };
    return this.globalState;
  }
  \<close>
  \<^verbatim>\<open>this.global\<close> is derived in the constructor from the seed \<^verbatim>\<open>"global"\<close>. The offsets
  are written out: the flag at 8, the keys at 9, 41 and 73, the integers from 105.
\<close>

definition global_address :: "environment \<Rightarrow> PublicKey" where
  "global_address env = findProgramAddressSync env [Buffer_from_text ''global''] PUMP"

definition loadGlobal :: "environment \<Rightarrow> PumpTrader \<Rightarrow> (js_error + GlobalState) \<times> PumpTrader" where
  "loadGlobal env trader =
     (case getAccountInfo env (global_address env) of
        Inl e \<Rightarrow> (Inl e, trader)
      | Inr None \<Rightarrow> (Inl (Error ''Global account not found''), trader)
      | Inr (Some acc) \<Rightarrow>
          (case
             bind_result (PublicKey_from_buffer (slice (data acc) 9 41)) (\<lambda>authority'.
             bind_result (PublicKey_from_buffer (slice (data acc) 41 73)) (\<lambda>feeRecipient'.
             bind_result (PublicKey_from_buffer (slice (data acc) 73 105)) (\<lambda>withdrawAuthority'.
             bind_result (readBigUInt64LE (data acc) 105) (\<lambda>v1.
             bind_result (readBigUInt64LE (data acc) 113) (\<lambda>v2.
             bind_result (readBigUInt64LE (data acc) 121) (\<lambda>v3.
             bind_result (readBigUInt64LE (data acc) 129) (\<lambda>v4.
             bind_result (readBigUInt64LE (data acc) 137) (\<lambda>v5.
               Inr \<lparr>initialized = byte_is_one (data acc) 8,
                    authority = authority',
                    feeRecipient = feeRecipient',
                    withdrawAuthority = withdrawAuthority',
                    initialVirtualTokenReserves = v1,
                    initialVirtualSolReserves = v2,
                    initialRealTokenReserves = v3,
                    global_tokenTotalSupply = v4,
                    feeBasisPoints = v5\<rparr>))))))))
           of
             Inl e \<Rightarrow> (Inl e, trader)
           | Inr g \<Rightarrow> (Inr g, trader\<lparr>globalState := Some g\<rparr>)))"

text \<open>
  \<^verbatim>\<open>
  getBondingPda(mint) {
    return PublicKey.findProgramAddressSync([SEEDS.BONDING, mint.toBuffer()], PROGRAM_IDS.PUMP)[0];
  }

  async loadBonding(mint) {
    const bonding = this.getBondingPda(mint);
    const acc = await this.connection.getAccountInfo(bonding);
    if (!acc) throw new Error("Bonding curve not found");
    let offset = 8;
    const data = acc.data;
    const state = {};
    [state.virtualTokenReserves, offset] = readU64(data, offset);
    [state.virtualSolReserves, offset] = readU64(data, offset);
    [state.realTokenReserves, offset] = readU64(data, offset);
    [state.realSolReserves, offset] = readU64(data, offset);
    [state.tokenTotalSupply, offset] = readU64(data, offset);
    state.complete = data[offset] === 1;
    offset += 1;
    const creator = new PublicKey(data.slice(offset, offset + 32));
    return { bonding, state, creator };
  }
  \<close>
\<close>

definition getBondingPda :: "environment \<Rightarrow> PublicKey \<Rightarrow> PublicKey" where
  "getBondingPda env mintKey =
     findProgramAddressSync env [Buffer_from_text ''bonding-curve'', toBuffer mintKey] PUMP"

definition loadBonding :: "environment \<Rightarrow> PublicKey \<Rightarrow> js_error + BondingInfo" where
  "loadBonding env mintKey =
     (case getAccountInfo env (getBondingPda env mintKey) of
        Inl e \<Rightarrow> Inl e
      | Inr None \<Rightarrow> Inl (Error ''Bonding curve not found'')
      | Inr (Some acc) \<Rightarrow>
          bind_result (readBigUInt64LE (data acc) 8) (\<lambda>v1.
          bind_result (readBigUInt64LE (data acc) 16) (\<lambda>v2.
          bind_result (readBigUInt64LE (data acc) 24) (\<lambda>v3.
          bind_result (readBigUInt64LE (data acc) 32) (\<lambda>v4.
          bind_result (readBigUInt64LE (data acc) 40) (\<lambda>v5.
          bind_result (PublicKey_from_buffer (slice (data acc) 49 81)) (\<lambda>creator'.
            Inr \<lparr>bonding = getBondingPda env mintKey,
                 state = \<lparr>virtualTokenReserves = v1,
                          virtualSolReserves = v2,
                          realTokenReserves = v3,
                          realSolReserves = v4,
                          tokenTotalSupply = v5,
                          complete = byte_is_one (data acc) 48\<rparr>,
                 creator = creator'\<rparr>)))))))"

text \<open>
  \<^verbatim>\<open>
  async isAmmCompleted(tokenAddr) {
    try {
      const mint = new PublicKey(tokenAddr);
      const { state } = await this.loadBonding(mint);
      return state.complete;
    } catch (error) {
      return true;
    }
  }

  async getTradeMode(tokenAddr) {
    const isAmmMode = await this.isAmmCompleted(tokenAddr);
    return isAmmMode ? "amm" : "bonding";
  }
  \<close>
\<close>

definition isAmmCompleted :: "environment \<Rightarrow> string \<Rightarrow> bool" where
  "isAmmCompleted env tokenAddr =
     (case bind_result (PublicKey_from_string tokenAddr) (loadBonding env) of
        Inr info \<Rightarrow> complete (state info)
      | Inl error' \<Rightarrow> True)"

definition getTradeMode :: "environment \<Rightarrow> string \<Rightarrow> string" where
  "getTradeMode env tokenAddr =
     (let isAmmMode = isAmmCompleted env tokenAddr in if isAmmMode then ''amm'' else ''bonding'')"

section \<open>Executor\<close>

text \<open>
  The four trade loops (in \<^verbatim>\<open>buy\<close>, \<^verbatim>\<open>sell\<close>, \<^verbatim>\<open>ammBuy\<close> and \<^verbatim>\<open>ammSell\<close>) have one
  shape:
  \<^verbatim>\<open>
  for (let i = 0; i < chunks.length; i++) {
    try {
      const amountIn = chunks[i];
      const out = <quote>(amountIn, <reserves>);
      ... build, sign and send the transaction ...
      pendingTransactions.push({ signature, lastValidBlockHeight, index: i });
    } catch (e) {
      failedTransactions.push({ index: i, error: e.message });
    }
  }
  \<close>
  \<open>execute_orders\<close> is that loop, for the trade \<open>k\<close> and its quote function; it returns
  the two lists and the orders it handed to \<open>submitOrder\<close>. A quote that throws is caught
  like any other exception of the pass, before anything is submitted.
\<close>

fun execute_orders ::
  "environment \<Rightarrow> order_kind \<Rightarrow> TradeOptions \<Rightarrow> (int \<Rightarrow> js_error + int) \<Rightarrow> nat \<Rightarrow> int list
     \<Rightarrow> TradeResult \<times> order list" where
  "execute_orders env k opt quote i [] =
     (\<lparr>pendingTransactions = [], failedTransactions = []\<rparr>, [])"
| "execute_orders env k opt quote i (x # chunks) =
     (case execute_orders env k opt quote (Suc i) chunks of
        (later, orders) \<Rightarrow>
          (case quote x of
             Inl e \<Rightarrow>
               (later\<lparr>failedTransactions :=
                   \<lparr>failed_index = i, error = message e\<rparr> # failedTransactions later\<rparr>,
                orders)
           | Inr out \<Rightarrow>
               (let order = \<lparr>kind = k, order_index = i, amountIn = x, quotedOut = out,
                              options = opt\<rparr>
                in case submitOrder env order of
                     Inl e \<Rightarrow>
                       (later\<lparr>failedTransactions :=
                           \<lparr>failed_index = i, error = message e\<rparr> # failedTransactions later\<rparr>,
                        order # orders)
                   | Inr (sig, height) \<Rightarrow>
                       (later\<lparr>pendingTransactions :=
                           \<lparr>signature = sig, lastValidBlockHeight = height, index = i\<rparr>
                           # pendingTransactions later\<rparr>,
                        order # orders))))"

text \<open>
  \<^verbatim>\<open>
  async buy(tokenAddr, totalSolIn, tradeOpt) {
    const mint = new PublicKey(tokenAddr);
    const tokenProgram = await this.detectTokenProgram(tokenAddr);
    if (!this.globalState) await this.loadGlobal();
    const { bonding, state, creator } = await this.loadBonding(mint);
    if (state.complete) throw new Error("Bonding curve already completed");
    const solChunks = this.splitByMax(totalSolIn, tradeOpt.maxSolPerTx);
    const pendingTransactions = [];
    const failedTransactions = [];
    ... addresses ...
    for (let i = 0; i < solChunks.length; i++) { ... }
    return { pendingTransactions, failedTransactions };
  }
  \<close>
  and \<^verbatim>\<open>sell\<close>, which differs in the plan (\<open>sell_tokenChunks\<close>) and the quote. The result
  is the outcome (the exception thrown or the two lists) with the trader's new state;
  \<open>None\<close> is a call that does not return. \<open>ensureGlobal\<close> is the line
  \<^verbatim>\<open>if (!this.globalState) await this.loadGlobal();\<close>.
\<close>

definition ensureGlobal :: "environment \<Rightarrow> PumpTrader \<Rightarrow> (js_error + unit) \<times> PumpTrader" where
  "ensureGlobal env trader =
     (if globalState trader = None then
        (case loadGlobal env trader of
           (Inl e, trader') \<Rightarrow> (Inl e, trader')
         | (Inr g, trader') \<Rightarrow> (Inr (), trader'))
      else (Inr (), trader))"

definition buy ::
  "environment \<Rightarrow> PumpTrader \<Rightarrow> string \<Rightarrow> int \<Rightarrow> TradeOptions
     \<Rightarrow> ((js_error + TradeResult) \<times> PumpTrader) option" where
  "buy env trader tokenAddr totalSolIn tradeOpt =
     (case PublicKey_from_string tokenAddr of
        Inl e \<Rightarrow> Some (Inl e, trader)
      | Inr mintKey \<Rightarrow>
     (case detectTokenProgram env trader tokenAddr of
        (Inl e, trader1) \<Rightarrow> Some (Inl e, trader1)
      | (Inr tokenProgram, trader1) \<Rightarrow>
     (case ensureGlobal env trader1 of
        (Inl e, trader2) \<Rightarrow> Some (Inl e, trader2)
      | (Inr _, trader2) \<Rightarrow>
     (case loadBonding env mintKey of
        Inl e \<Rightarrow> Some (Inl e, trader2)
      | Inr info \<Rightarrow>
          if complete (state info)
          then Some (Inl (Error ''Bonding curve already completed''), trader2)
          else
            (case splitByMax totalSolIn (maxSolPerTx tradeOpt) of
               None \<Rightarrow> None
             | Some solChunks \<Rightarrow>
                 (case execute_orders env CurveBuy tradeOpt
                         (\<lambda>solIn. calcBuy solIn (state info)) 0 solChunks of
                    (result, orders) \<Rightarrow>
                      Some (Inr result, trader2\<lparr>submitted := submitted trader2 @ orders\<rparr>)))))))"

definition sell ::
  "environment \<Rightarrow> PumpTrader \<Rightarrow> string \<Rightarrow> int \<Rightarrow> TradeOptions
     \<Rightarrow> ((js_error + TradeResult) \<times> PumpTrader) option" where
  "sell env trader tokenAddr totalTokenIn tradeOpt =
     (case PublicKey_from_string tokenAddr of
        Inl e \<Rightarrow> Some (Inl e, trader)
      | Inr mintKey \<Rightarrow>
     (case detectTokenProgram env trader tokenAddr of
        (Inl e, trader1) \<Rightarrow> Some (Inl e, trader1)
      | (Inr tokenProgram, trader1) \<Rightarrow>
     (case ensureGlobal env trader1 of
        (Inl e, trader2) \<Rightarrow> Some (Inl e, trader2)
      | (Inr _, trader2) \<Rightarrow>
     (case loadBonding env mintKey of
        Inl e \<Rightarrow> Some (Inl e, trader2)
      | Inr info \<Rightarrow>
          if complete (state info)
          then Some (Inl (Error ''Bonding curve already completed''), trader2)
          else
            (case sell_tokenChunks totalTokenIn (state info) (maxSolPerTx tradeOpt) of
               None \<Rightarrow> None
             | Some (Inl e) \<Rightarrow> Some (Inl e, trader2)
             | Some (Inr tokenChunks) \<Rightarrow>
                 (case execute_orders env CurveSell tradeOpt
                         (\<lambda>tokenIn. calcSell tokenIn (state info)) 0 tokenChunks of
                    (result, orders) \<Rightarrow>
                      Some (Inr result, trader2\<lparr>submitted := submitted trader2 @ orders\<rparr>)))))))"

text \<open>
  The pool records of the AMM path, \<^verbatim>\<open>parsePoolKeys\<close> (which rejects data shorter than
  280 bytes and then reads at fixed offsets), \<^verbatim>\<open>parseAmmGlobalConfig\<close> (the admin key at
  8 and eight fee recipients from 57), \<^verbatim>\<open>getAmmPoolInfo\<close> and \<^verbatim>\<open>getAmmPoolReserves\<close>.
  (The field \<^verbatim>\<open>creator\<close> of the pool keys is \<open>pool_creator\<close> here.)
\<close>

record PoolKeys =
  pool_creator :: PublicKey
  baseMint :: PublicKey
  quoteMint :: PublicKey
  lpMint :: PublicKey
  poolBaseTokenAccount :: PublicKey
  poolQuoteTokenAccount :: PublicKey
  coinCreator :: PublicKey
  isMayhemMode :: bool

record AmmGlobalConfig =
  address :: PublicKey
  admin :: PublicKey
  protocolFeeRecipients :: "PublicKey list"

record PoolInfo =
  pool :: PublicKey
  poolAuthority :: PublicKey
  poolKeys :: PoolKeys
  globalConfig :: AmmGlobalConfig

definition parsePoolKeys :: "buffer \<Rightarrow> js_error + PoolKeys" where
  "parsePoolKeys bytes =
     (if length bytes < 280 then Inl (Error ''Invalid pool account data'')
      else
        bind_result (PublicKey_from_buffer (slice bytes 11 43)) (\<lambda>k1.
        bind_result (PublicKey_from_buffer (slice bytes 43 75)) (\<lambda>k2.
        bind_result (PublicKey_from_buffer (slice bytes 75 107)) (\<lambda>k3.
        bind_result (PublicKey_from_buffer (slice bytes 107 139)) (\<lambda>k4.
        bind_result (PublicKey_from_buffer (slice bytes 139 171)) (\<lambda>k5.
        bind_result (PublicKey_from_buffer (slice bytes 171 203)) (\<lambda>k6.
        bind_result (readBigUInt64LE bytes 203) (\<lambda>lpSupply.
        bind_result (PublicKey_from_buffer (slice bytes 211 243)) (\<lambda>k7.
          Inr \<lparr>pool_creator = k1, baseMint = k2, quoteMint = k3, lpMint = k4,
               poolBaseTokenAccount = k5, poolQuoteTokenAccount = k6, coinCreator = k7,
               isMayhemMode = byte_is_one bytes 243\<rparr>)))))))))"

fun read_keys :: "buffer \<Rightarrow> nat \<Rightarrow> nat \<Rightarrow> js_error + PublicKey list" where
  "read_keys bytes offset 0 = Inr []"
| "read_keys bytes offset (Suc n) =
     bind_result (PublicKey_from_buffer (slice bytes offset (offset + 32))) (\<lambda>k.
     bind_result (read_keys bytes (offset + 32) n) (\<lambda>ks. Inr (k # ks)))"

definition parseAmmGlobalConfig :: "buffer \<Rightarrow> PublicKey \<Rightarrow> js_error + AmmGlobalConfig" where
  "parseAmmGlobalConfig bytes address' =
     bind_result (PublicKey_from_buffer (slice bytes 8 40)) (\<lambda>admin'.
     bind_result (read_keys bytes 57 8) (\<lambda>recipients.
       Inr \<lparr>address = address', admin = admin', protocolFeeRecipients = recipients\<rparr>))"

definition getAmmPoolInfo :: "environment \<Rightarrow> PublicKey \<Rightarrow> js_error + PoolInfo" where
  "getAmmPoolInfo env mintKey =
     (let poolAuthority' =
            findProgramAddressSync env [Buffer_from_text ''pool-authority'', toBuffer mintKey] PUMP;
          pool' =
            findProgramAddressSync env
              [Buffer_from_text ''pool'', [0, 0], toBuffer poolAuthority', toBuffer mintKey,
               toBuffer SOL_MINT] PUMP_AMM
      in
        (case getAccountInfo env pool' of
           Inl e \<Rightarrow> Inl e
         | Inr None \<Rightarrow> Inl (Error ''AMM pool not found'')
         | Inr (Some acc) \<Rightarrow>
             bind_result (parsePoolKeys (data acc)) (\<lambda>poolKeys'.
               (let globalConfigPda =
                      findProgramAddressSync env [Buffer_from_text ''global_config''] PUMP_AMM
                in
                  (case getAccountInfo env globalConfigPda of
                     Inl e \<Rightarrow> Inl e
                   | Inr None \<Rightarrow> Inl (Error ''Global config not found'')
                   | Inr (Some globalConfigAcc) \<Rightarrow>
                       bind_result (parseAmmGlobalConfig (data globalConfigAcc) globalConfigPda)
                         (\<lambda>globalConfig'.
                            Inr \<lparr>pool = pool', poolAuthority = poolAuthority',
                                 poolKeys = poolKeys', globalConfig = globalConfig'\<rparr>))))))"

definition getAmmPoolReserves :: "environment \<Rightarrow> PoolKeys \<Rightarrow> js_error + PoolReserves" where
  "getAmmPoolReserves env keys =
     bind_result (getTokenAccountBalance env (poolBaseTokenAccount keys)) (\<lambda>baseInfo.
     bind_result (getTokenAccountBalance env (poolQuoteTokenAccount keys)) (\<lambda>quoteInfo.
       Inr \<lparr>baseAmount = amount baseInfo, quoteAmount = amount quoteInfo,
            baseDecimals = decimals baseInfo, quoteDecimals = decimals quoteInfo\<rparr>))"

text \<open>
  \<^verbatim>\<open>
  async ammBuy(tokenAddr, totalSolIn, tradeOpt) {
    const mint = new PublicKey(tokenAddr);
    const poolInfo = await this.getAmmPoolInfo(mint);
    const reserves = await this.getAmmPoolReserves(poolInfo.poolKeys);
    const solChunks = this.splitByMax(totalSolIn, tradeOpt.maxSolPerTx);
    const tokenProgram = await this.detectTokenProgram(tokenAddr);
    ...
  }

  async ammSell(tokenAddr, totalTokenIn, tradeOpt) {
    const mint = new PublicKey(tokenAddr);
    const poolInfo = await this.getAmmPoolInfo(mint);
    const reserves = await this.getAmmPoolReserves(poolInfo.poolKeys);
    const totalSolOut = this.calculateAmmSellOutput(totalTokenIn, reserves);
    const tokenProgram = await this.detectTokenProgram(tokenAddr);
    const tokenChunks = totalSolOut <= tradeOpt.maxSolPerTx ? [totalTokenIn] : this.splitIntoN(...);
    ...
  }
  \<close>
\<close>

definition ammBuy ::
  "environment \<Rightarrow> PumpTrader \<Rightarrow> string \<Rightarrow> int \<Rightarrow> TradeOptions
     \<Rightarrow> ((js_error + TradeResult) \<times> PumpTrader) option" where
  "ammBuy env trader tokenAddr totalSolIn tradeOpt =
     (case PublicKey_from_string tokenAddr of
        Inl e \<Rightarrow> Some (Inl e, trader)
      | Inr mintKey \<Rightarrow>
     (case getAmmPoolInfo env mintKey of
        Inl e \<Rightarrow> Some (Inl e, trader)
      | Inr poolInfo \<Rightarrow>
     (case getAmmPoolReserves env (poolKeys poolInfo) of
        Inl e \<Rightarrow> Some (Inl e, trader)
      | Inr reserves \<Rightarrow>
     (case splitByMax totalSolIn (maxSolPerTx tradeOpt) of
        None \<Rightarrow> None
      | Some solChunks \<Rightarrow>
     (case detectTokenProgram env trader tokenAddr of
        (Inl e, trader1) \<Rightarrow> Some (Inl e, trader1)
      | (Inr tokenProgram, trader1) \<Rightarrow>
          (case execute_orders env AmmBuy tradeOpt
                  (\<lambda>solIn. calculateAmmBuyOutput solIn reserves) 0 solChunks of
             (result, orders) \<Rightarrow>
               Some (Inr result, trader1\<lparr>submitted := submitted trader1 @ orders\<rparr>)))))))"

definition ammSell ::
  "environment \<Rightarrow> PumpTrader \<Rightarrow> string \<Rightarrow> int \<Rightarrow> TradeOptions
     \<Rightarrow> ((js_error + TradeResult) \<times> PumpTrader) option" where
  "ammSell env trader tokenAddr totalTokenIn tradeOpt =
     (case PublicKey_from_string tokenAddr of
        Inl e \<Rightarrow> Some (Inl e, trader)
      | Inr mintKey \<Rightarrow>
     (case getAmmPoolInfo env mintKey of
        Inl e \<Rightarrow> Some (Inl e, trader)
      | Inr poolInfo \<Rightarrow>
     (case getAmmPoolReserves env (poolKeys poolInfo) of
        Inl e \<Rightarrow> Some (Inl e, trader)
      | Inr reserves \<Rightarrow>
     (case calculateAmmSellOutput totalTokenIn reserves of
        Inl e \<Rightarrow> Some (Inl e, trader)
      | Inr totalSolOut \<Rightarrow>
     (case detectTokenProgram env trader tokenAddr of
        (Inl e, trader1) \<Rightarrow> Some (Inl e, trader1)
      | (Inr tokenProgram, trader1) \<Rightarrow>
     (case plan_tokenChunks totalSolOut totalTokenIn (maxSolPerTx tradeOpt) of
        None \<Rightarrow> None
      | Some (Inl e) \<Rightarrow> Some (Inl e, trader1)
      | Some (Inr tokenChunks) \<Rightarrow>
          (case execute_orders env AmmSell tradeOpt
                  (\<lambda>tokenIn. calculateAmmSellOutput tokenIn reserves) 0 tokenChunks of
             (result, orders) \<Rightarrow>
               Some (Inr result, trader1\<lparr>submitted := submitted trader1 @ orders\<rparr>))))))))"

text \<open>
  \<^verbatim>\<open>
  async autoBuy(tokenAddr, totalSolIn, tradeOpt) {
    const mode = await this.getTradeMode(tokenAddr);
    if (mode === "bonding") {
      return this.buy(tokenAddr, totalSolIn, tradeOpt);
    } else {
      return this.ammBuy(tokenAddr, totalSolIn, tradeOpt);
    }
  }
  \<close>
  and \<^verbatim>\<open>autoSell\<close> likewise.
\<close>

definition autoBuy ::
  "environment \<Rightarrow> PumpTrader \<Rightarrow> string \<Rightarrow> int \<Rightarrow> TradeOptions
     \<Rightarrow> ((js_error + TradeResult) \<times> PumpTrader) option" where
  "autoBuy env trader tokenAddr totalSolIn tradeOpt =
     (let mode = getTradeMode env tokenAddr in
      if mode = ''bonding'' then buy env trader tokenAddr totalSolIn tradeOpt
      else ammBuy env trader tokenAddr totalSolIn tradeOpt)"

definition autoSell ::
  "environment \<Rightarrow> PumpTrader \<Rightarrow> string \<Rightarrow> int \<Rightarrow> TradeOptions
     \<Rightarrow> ((js_error + TradeResult) \<times> PumpTrader) option" where
  "autoSell env trader tokenAddr totalTokenIn tradeOpt =
     (let mode = getTradeMode env tokenAddr in
      if mode = ''bonding'' then sell env trader tokenAddr totalTokenIn tradeOpt
      else ammSell env trader tokenAddr totalTokenIn tradeOpt)"

section \<open>Sample inputs\<close>

text \<open>
  Two trade-event data lines, as the program logs them. Both carry the event tag; the
  first is a buy of the mint whose 32 bytes are all 1, the second a sell of the mint
  whose 32 bytes are all 2 (\<open>sample_mint_B\<close>).
\<close>

definition sample_line_A :: string where
  "sample_line_A = ''Program data: vdt/007mYe4BAQEBAQEBAQEBAQEBAQEBAQEBAQEBAQEBAQEBAQEBAegDAAAAAAAA0AcAAAAAAAABAwMDAwMDAwMDAwMDAwMDAwMDAwMDAwMDAwMDAwMDAwMA8VNlAAAAAA==''"

definition sample_line_B :: string where
  "sample_line_B = ''Program data: vdt/007mYe4CAgICAgICAgICAgICAgICAgICAgICAgICAgICAgICAgUAAAAAAAAABwAAAAAAAAAABAQEBAQEBAQEBAQEBAQEBAQEBAQEBAQEBAQEBAQEBAQB8VNlAAAAAA==''"

definition sample_mint_B :: PublicKey where
  "sample_mint_B = PublicKey (be_value (replicate 32 2))"

text \<open>
  A caller's options, a fresh trader, a token address, and two ledgers: one where every
  account holds the same 149 bytes, whose byte 48 (the completion flag of a bonding
  curve) is 1, and one where no account exists.
\<close>

definition sample_options :: TradeOptions where
  "sample_options =
     \<lparr>maxSolPerTx = 1000000000,
      slippage = \<lparr>slippage_base = 500, slippage_max = None, slippage_min = None,
                  impactFactor = None\<rparr>,
      priority = \<lparr>priority_base = 5000, enableRandom = None, randomRange = None\<rparr>\<rparr>"

definition sample_trader :: PumpTrader where
  "sample_trader = \<lparr>globalState = None, tokenProgramCache = Map.empty, submitted = []\<rparr>"

definition completed_curve_environment :: environment where
  "completed_curve_environment =
     \<lparr>getAccountInfo = (\<lambda>key. Inr (Some \<lparr>data = replicate 48 0 @ [1] @ replicate 100 0\<rparr>)),
      getMint = (\<lambda>key program. Inr ()),
      getTokenAccountBalance = (\<lambda>key. Inl (Error ''could not find account'')),
      findProgramAddressSync = (\<lambda>seeds program. PublicKey (int (length seeds))),
      submitOrder = (\<lambda>order. Inr (''5sig'', 1000))\<rparr>"

definition empty_ledger_environment :: environment where
  "empty_ledger_environment =
     \<lparr>getAccountInfo = (\<lambda>key. Inr None),
      getMint = (\<lambda>key program. Inr ()),
      getTokenAccountBalance = (\<lambda>key. Inl (Error ''could not find account'')),
      findProgramAddressSync = (\<lambda>seeds program. PublicKey (int (length seeds))),
      submitOrder = (\<lambda>order. Inr (''5sig'', 1000))\<rparr>"

text \<open>
  A ledger where the curve is open: every account holds 149 bytes in which the first
  reserve field (the virtual token reserves) is 3, the second (the virtual base
  reserves) is 5 and the completion flag is 0; the first order of a plan is sent, a
  later one fails when the blockhash is fetched.
\<close>

definition open_curve_environment :: environment where
  "open_curve_environment =
     \<lparr>getAccountInfo =
        (\<lambda>key. Inr (Some \<lparr>data = replicate 8 0 @ [3] @ replicate 7 0 @ [5] @ replicate 133 0\<rparr>)),
      getMint = (\<lambda>key program. Inr ()),
      getTokenAccountBalance = (\<lambda>key. Inl (Error ''could not find account'')),
      findProgramAddressSync = (\<lambda>seeds program. PublicKey (int (length seeds))),
      submitOrder =
        (\<lambda>order. if order_index order = 0 then Inr (''5sig'', 1000)
                  else Inl (Error ''blockhash not found''))\<rparr>"

definition sample_token :: string where
  "sample_token = ''So11111111111111111111111111111111111111112''"

section \<open>Properties of the pricing engine\<close>

lemma bigint_div_nonneg:
  "0 \<le> a \<Longrightarrow> 0 < b \<Longrightarrow> bigint_div a b = Inr (a div b)"
  by (cases "a = 0") (simp_all add: bigint_div_def)

lemma calcBuy_nonneg:
  assumes "0 \<le> virtualSolReserves s" "0 \<le> virtualTokenReserves s"
    and "0 < virtualSolReserves s + x"
  shows "calcBuy x s =
         Inr (virtualTokenReserves s
              - (virtualSolReserves s * virtualTokenReserves s) div (virtualSolReserves s + x))"
  using assms by (simp add: calcBuy_def Let_def bigint_div_nonneg)

lemma calcSell_nonneg:
  assumes "0 \<le> virtualSolReserves s" "0 \<le> virtualTokenReserves s"
    and "0 < virtualTokenReserves s + y"
  shows "calcSell y s =
         Inr (virtualSolReserves s
              - (virtualSolReserves s * virtualTokenReserves s) div (virtualTokenReserves s + y))"
  using assms by (simp add: calcSell_def Let_def bigint_div_nonneg)


lemma int_div_less_of_less_mult:
  fixes a b t :: int
  assumes "0 < t" "a < b * t"
  shows "a div t < b"
proof (rule ccontr)
  assume "\<not> a div t < b"
  then have "b \<le> a div t" by simp
  then have "b * t \<le> (a div t) * t" using assms(1) by (simp add: mult_right_mono)
  also have "\<dots> \<le> a"
    using assms(1) div_mult_mod_eq [of a t] pos_mod_sign [of t a] by linarith
  finally show False using assms(2) by simp
qed

text \<open>
  The arithmetic of a buy followed by a sell: with \<open>t' = \<lfloor>b t / (b + x)\<rfloor>\<close> the sell
  computes \<open>\<lfloor>(b + x) t' / t\<rfloor>\<close>, which never exceeds \<open>b\<close> and reaches it only when the
  first division was exact.
\<close>

lemma roundtrip_core:
  fixes b t x :: int
  assumes "0 < b" "0 < t" "0 < x"
  defines "t' \<equiv> (b * t) div (b + x)"
  shows "((b + x) * t') div t \<le> b"
    and "((b + x) * t') div t = b \<longleftrightarrow> (b + x) dvd b * t"
proof -
  have pos: "0 < b + x" using assms by simp
  have eq: "(b + x) * t' = b * t - (b * t) mod (b + x)"
    unfolding t'_def by (simp add: minus_mod_eq_mult_div)
  have m0: "0 \<le> (b * t) mod (b + x)" using pos by simp
  have le: "(b + x) * t' \<le> b * t" using eq m0 by simp
  have "((b + x) * t') div t \<le> (b * t) div t"
    using le assms(2) by (rule zdiv_mono1)
  then show A: "((b + x) * t') div t \<le> b" using assms(2) by simp
  have B: "(b + x) * t' < b * t \<Longrightarrow> ((b + x) * t') div t < b"
    using assms(2) by (rule int_div_less_of_less_mult)
  have C: "(b + x) * t' = b * t \<Longrightarrow> ((b + x) * t') div t = b"
    using assms(2) by simp
  have "(b + x) * t' = b * t \<longleftrightarrow> (b * t) mod (b + x) = 0" using eq by simp
  also have "\<dots> \<longleftrightarrow> (b + x) dvd b * t" by (simp add: dvd_eq_mod_eq_0)
  finally show "((b + x) * t') div t = b \<longleftrightarrow> (b + x) dvd b * t"
    using A B C le by (metis less_le not_less_iff_gr_or_eq)
qed

text \<open>
  C1, as stated: buying with \<open>x\<close>, moving the reserves to
  \<open>(Vb + x, \<lfloor>Vb Vt / (Vb + x)\<rfloor>)\<close> and selling the tokens back returns at most \<open>x\<close>.
  This fails: with \<open>Vb = Vt = 3\<close> and \<open>x = 1\<close> the buy yields 1 token, the reserves become
  \<open>(4, 2)\<close>, and selling that token returns \<open>4 - \<lfloor>8 / 3\<rfloor> = 2\<close>.
\<close>

theorem buy_then_sell_counterexample:
  "calcBuy 1 \<lparr>virtualTokenReserves = 3, virtualSolReserves = 3,
      realTokenReserves = 0, realSolReserves = 0, tokenTotalSupply = 3, complete = False\<rparr> = Inr 1
   \<and> calcSell 1 \<lparr>virtualTokenReserves = (3 * 3) div (3 + 1), virtualSolReserves = 3 + 1,
      realTokenReserves = 0, realSolReserves = 0, tokenTotalSupply = 3, complete = False\<rparr> = Inr 2
   \<and> \<not> ((2::int) \<le> 1)"
  by (simp add: calcBuy_def calcSell_def bigint_div_def)

text \<open>
  C1, amended: for positive virtual reserves and a positive input \<open>x\<close>, the buy and the
  sell against the updated reserves both succeed and the sell returns at least \<open>x\<close>; it
  returns exactly \<open>x\<close> if and only if the buy's division was exact, that is, \<open>Vb + x\<close>
  divides \<open>Vb * Vt\<close>. (Both divisions round the new reserve down, so each rounds the
  trader's output up.)
\<close>

theorem buy_then_sell_returns_at_least_input:
  assumes "0 < virtualSolReserves s" "0 < virtualTokenReserves s" "0 < x"
  shows "\<exists>tokenOut solBack.
           calcBuy x s = Inr tokenOut
           \<and> calcSell tokenOut
                (s\<lparr>virtualSolReserves := virtualSolReserves s + x,
                   virtualTokenReserves :=
                     (virtualSolReserves s * virtualTokenReserves s) div (virtualSolReserves s + x)\<rparr>)
               = Inr solBack
           \<and> x \<le> solBack
           \<and> (solBack = x \<longleftrightarrow>
                (virtualSolReserves s + x) dvd (virtualSolReserves s * virtualTokenReserves s))"
proof -
  let ?b = "virtualSolReserves s" and ?t = "virtualTokenReserves s"
  let ?t' = "(?b * ?t) div (?b + x)"
  let ?s' = "s\<lparr>virtualSolReserves := ?b + x, virtualTokenReserves := ?t'\<rparr>"
  have pos: "0 < ?b + x" using assms by simp
  have buy: "calcBuy x s = Inr (?t - ?t')"
    using assms pos by (simp add: calcBuy_nonneg)
  have t'0: "0 \<le> ?t'" using assms pos by (simp add: pos_imp_zdiv_nonneg_iff)
  have sell: "calcSell (?t - ?t') ?s' = Inr ((?b + x) - ((?b + x) * ?t') div ?t)"
    using assms pos t'0 calcSell_nonneg [of ?s' "?t - ?t'"] by simp
  note core = roundtrip_core [OF assms(1) assms(2) assms(3)]
  show ?thesis
    using buy sell core by auto
qed

theorem buy_then_sell_returns_at_least_input_witness:
  "\<exists>tokenOut solBack.
     calcBuy 100000000 \<lparr>virtualTokenReserves = 1000000000, virtualSolReserves = 30000000000,
        realTokenReserves = 0, realSolReserves = 0, tokenTotalSupply = 0, complete = False\<rparr>
       = Inr tokenOut
     \<and> calcSell tokenOut \<lparr>virtualTokenReserves = 996677740, virtualSolReserves = 30100000000,
        realTokenReserves = 0, realSolReserves = 0, tokenTotalSupply = 0, complete = False\<rparr>
       = Inr solBack
     \<and> 100000000 \<le> solBack \<and> solBack \<noteq> 100000000"
  using buy_then_sell_returns_at_least_input
    [of "\<lparr>virtualTokenReserves = 1000000000, virtualSolReserves = 30000000000,
        realTokenReserves = 0, realSolReserves = 0, tokenTotalSupply = 0, complete = False\<rparr>"
        100000000]
  by simp

text \<open>
  C2, as stated: for every state and every \<open>x > 0\<close>, \<open>calcBuy x\<close> is strictly below the
  virtual token reserves. This fails when the product of the reserves is small against
  the input: with \<open>Vb = Vt = 1\<close> and \<open>x = 1\<close> the new token reserve is
  \<open>\<lfloor>1 / 2\<rfloor> = 0\<close> and the buy returns the whole reserve, \<open>1\<close>.
\<close>

theorem calcBuy_drain_counterexample:
  "calcBuy 1 \<lparr>virtualTokenReserves = 1, virtualSolReserves = 1,
      realTokenReserves = 0, realSolReserves = 0, tokenTotalSupply = 1, complete = False\<rparr> = Inr 1
   \<and> \<not> ((1::int) < 1)"
  by (simp add: calcBuy_def bigint_div_def)

text \<open>
  C2, amended: for non-negative virtual reserves and every \<open>x > 0\<close>, \<open>calcBuy x\<close> succeeds
  and is at most the virtual token reserves; it is strictly below them if and only if
  \<open>Vb + x \<le> Vb * Vt\<close>.
\<close>

theorem calcBuy_le_reserves:
  assumes "0 \<le> virtualSolReserves s" "0 \<le> virtualTokenReserves s" "0 < x"
  shows "\<exists>t. calcBuy x s = Inr t \<and> t \<le> virtualTokenReserves s
           \<and> (t < virtualTokenReserves s
                \<longleftrightarrow> virtualSolReserves s + x \<le> virtualSolReserves s * virtualTokenReserves s)"
proof -
  let ?b = "virtualSolReserves s" and ?t = "virtualTokenReserves s"
  have pos: "0 < ?b + x" using assms by simp
  have q0: "0 \<le> (?b * ?t) div (?b + x)"
    using assms pos by (simp add: pos_imp_zdiv_nonneg_iff)
  have qpos: "0 < (?b * ?t) div (?b + x) \<longleftrightarrow> ?b + x \<le> ?b * ?t"
    using pos by (simp add: pos_imp_zdiv_pos_iff)
  show ?thesis
    using calcBuy_nonneg [OF assms(1,2) pos] q0 qpos by auto
qed

theorem calcBuy_le_reserves_witness:
  "\<exists>t. calcBuy 100000000 \<lparr>virtualTokenReserves = 1000000000, virtualSolReserves = 30000000000,
        realTokenReserves = 0, realSolReserves = 0, tokenTotalSupply = 0, complete = False\<rparr>
       = Inr t \<and> t < 1000000000"
  using calcBuy_le_reserves
    [of "\<lparr>virtualTokenReserves = 1000000000, virtualSolReserves = 30000000000,
        realTokenReserves = 0, realSolReserves = 0, tokenTotalSupply = 0, complete = False\<rparr>"
        100000000]
  by auto

text \<open>
  C7: on unsigned reserves \<open>(Vb, Vt)\<close> and an unsigned input \<open>x\<close> with \<open>Vb + x > 0\<close> (the
  only case in which the quotient exists; at \<open>Vb + x = 0\<close> the BigInt division throws),
  \<open>calcBuy x\<close> is exactly \<open>Vt - \<lfloor>Vb Vt / (Vb + x)\<rfloor>\<close>. For \<open>Vt = 1_000_000_000\<close>,
  \<open>Vb = 30_000_000_000\<close> and \<open>x = 100_000_000\<close> this is
  \<open>1_000_000_000 - \<lfloor>30_000_000_000 * 1_000_000_000 / 30_100_000_000\<rfloor> = 3_322_260\<close>.
\<close>

theorem calcBuy_formula:
  "(0 \<le> virtualSolReserves s \<and> 0 \<le> virtualTokenReserves s \<and> 0 < virtualSolReserves s + x \<longrightarrow>
      calcBuy x s =
        Inr (virtualTokenReserves s
             - (virtualSolReserves s * virtualTokenReserves s) div (virtualSolReserves s + x)))
   \<and> (virtualTokenReserves s = 1000000000 \<and> virtualSolReserves s = 30000000000 \<longrightarrow>
      calcBuy 100000000 s = Inr (1000000000 - (30000000000 * 1000000000) div 30100000000)
      \<and> calcBuy 100000000 s = Inr 3322260)"
  by (simp add: calcBuy_nonneg)

theorem calcBuy_formula_witness:
  "calcBuy 100000000
     \<lparr>virtualTokenReserves = 1000000000, virtualSolReserves = 30000000000,
      realTokenReserves = 0, realSolReserves = 0, tokenTotalSupply = 0, complete = False\<rparr>
   = Inr 3322260"
  using calcBuy_formula
    [of "\<lparr>virtualTokenReserves = 1000000000, virtualSolReserves = 30000000000,
      realTokenReserves = 0, realSolReserves = 0, tokenTotalSupply = 0, complete = False\<rparr>" 100000000]
  by simp

text \<open>
  C8: on unsigned reserves and an unsigned quote input \<open>q\<close>, \<open>calculateAmmBuyOutput\<close>
  first takes the fee, \<open>q' = \<lfloor>q * 9900 / 10000\<rfloor>\<close>, and then returns
  \<open>\<lfloor>base * q' / (quote + q')\<rfloor>\<close> (the quotient exists when \<open>quote + q' > 0\<close>). For
  \<open>base = 500_000\<close>, \<open>quote = 10_000_000\<close> and \<open>q = 1_000_000\<close> it returns
  \<open>\<lfloor>500_000 * 990_000 / 10_990_000\<rfloor> = 45_040\<close>.
\<close>

theorem calculateAmmBuyOutput_formula:
  "(0 \<le> quoteIn \<and> 0 \<le> baseAmount r \<and> 0 \<le> quoteAmount r
      \<and> 0 < quoteAmount r + (quoteIn * 9900) div 10000 \<longrightarrow>
      calculateAmmBuyOutput quoteIn r =
        Inr ((baseAmount r * ((quoteIn * 9900) div 10000))
               div (quoteAmount r + (quoteIn * 9900) div 10000)))
   \<and> (baseAmount r = 500000 \<and> quoteAmount r = 10000000 \<longrightarrow>
      calculateAmmBuyOutput 1000000 r = Inr ((500000 * 990000) div 10990000)
      \<and> calculateAmmBuyOutput 1000000 r = Inr 45040)"
proof -
  have fee: "0 \<le> q \<Longrightarrow> bigint_div (q * (BPS_DENOMINATOR - AMM_FEE_BPS)) BPS_DENOMINATOR
               = Inr ((q * 9900) div 10000)" for q
    by (simp add: BPS_DENOMINATOR_def AMM_FEE_BPS_def bigint_div_nonneg)
  have a0: "0 \<le> q \<Longrightarrow> 0 \<le> (q * 9900) div 10000" for q :: int
    by (simp add: pos_imp_zdiv_nonneg_iff)
  have general: "0 \<le> quoteIn \<and> 0 \<le> baseAmount r \<and> 0 \<le> quoteAmount r
      \<and> 0 < quoteAmount r + (quoteIn * 9900) div 10000 \<longrightarrow>
      calculateAmmBuyOutput quoteIn r =
        Inr ((baseAmount r * ((quoteIn * 9900) div 10000))
               div (quoteAmount r + (quoteIn * 9900) div 10000))"
    using fee [of quoteIn] a0 [of quoteIn]
    by (auto simp: calculateAmmBuyOutput_def Let_def bigint_div_nonneg)
  have concrete: "baseAmount r = 500000 \<and> quoteAmount r = 10000000 \<longrightarrow>
      calculateAmmBuyOutput 1000000 r = Inr 45040"
    by (simp add: calculateAmmBuyOutput_def Let_def bigint_div_def
        BPS_DENOMINATOR_def AMM_FEE_BPS_def)
  show ?thesis
    using general concrete by simp
qed

theorem calculateAmmBuyOutput_formula_witness:
  "calculateAmmBuyOutput 1000000
     \<lparr>baseAmount = 500000, quoteAmount = 10000000, baseDecimals = 6, quoteDecimals = 9\<rparr>
   = Inr 45040"
  using calculateAmmBuyOutput_formula
    [of 1000000 "\<lparr>baseAmount = 500000, quoteAmount = 10000000, baseDecimals = 6, quoteDecimals = 9\<rparr>"]
  by simp

section \<open>Properties of the order planner\<close>

lemma round_double_exact: "\<bar>v\<bar> \<le> 2 ^ 53 \<Longrightarrow> round_double v = v"
proof -
  assume a: "\<bar>v\<bar> \<le> 2 ^ 53"
  consider "\<bar>v\<bar> < 2 ^ 53" | "v = 2 ^ 53" | "v = - (2 ^ 53)"
    using a by linarith
  then show ?thesis
  proof cases
    case 1 then show ?thesis by (simp add: round_double_def)
  next
    case 2 then show ?thesis by (simp add: round_double_def)
  next
    case 3 then show ?thesis by (simp add: round_double_def)
  qed
qed

text \<open>
  The bounds in the statements below are where the loops stop returning. With a ceiling
  that is not positive \<^verbatim>\<open>splitByMax\<close> cuts off a chunk that does not shrink what remains, and
  with a count above \<open>2^53\<close> the counter of \<^verbatim>\<open>splitIntoN\<close> cannot reach it: both loops run
  for ever.
\<close>

lemma round_double_stays_below:
  assumes "0 \<le> i" "i \<le> 2 ^ 53"
  shows "0 \<le> round_double (i + 1) \<and> round_double (i + 1) \<le> 2 ^ 53"
proof (cases "i = 2 ^ 53")
  case True
  then show ?thesis by (simp add: round_double_def)
next
  case False
  then have "\<bar>i + 1\<bar> \<le> 2 ^ 53" using assms by simp
  then have "round_double (i + 1) = i + 1" by (rule round_double_exact)
  then show ?thesis using assms False by simp
qed

lemma splitIntoN_loop_diverges:
  assumes "splitIntoN_loop n part i remaining chunks = Some result"
  shows "\<not> (2 ^ 53 < n \<and> 0 \<le> i \<and> i \<le> 2 ^ 53)"
proof (rule splitIntoN_loop.raw_induct
    [where P = "\<lambda>n part i remaining chunks result. \<not> (2 ^ 53 < n \<and> 0 \<le> i \<and> i \<le> 2 ^ 53)",
     OF _ assms])
  fix loop :: "int \<Rightarrow> int \<Rightarrow> int \<Rightarrow> int \<Rightarrow> int list \<Rightarrow> int list option"
    and n part i remaining :: int and chunks result :: "int list"
  assume IH: "\<And>n part i remaining chunks result.
                loop n part i remaining chunks = Some result \<Longrightarrow>
                \<not> (2 ^ 53 < n \<and> 0 \<le> i \<and> i \<le> 2 ^ 53)"
    and step: "(if i < n then
        (let chunk = (if i = round_double (n - 1) then remaining else part) in
         loop n part (round_double (i + 1)) (remaining - chunk) (chunks @ [chunk]))
      else Some chunks) = Some result"
  show "\<not> (2 ^ 53 < n \<and> 0 \<le> i \<and> i \<le> 2 ^ 53)"
  proof
    assume a: "2 ^ 53 < n \<and> 0 \<le> i \<and> i \<le> 2 ^ 53"
    then obtain r' c' where "loop n part (round_double (i + 1)) r' c' = Some result"
      using step by (simp add: Let_def)
    from IH [OF this] round_double_stays_below [of i] a show False by simp
  qed
qed

lemma splitIntoN_diverges: "2 ^ 53 < n \<Longrightarrow> splitIntoN total' n = None"
  using splitIntoN_loop_diverges [of n _ 0 total' "[]"]
  by (cases "splitIntoN total' n")
     (auto simp: splitIntoN_def bigint_div_def split: sum.splits if_splits)

lemma splitByMax_loop_diverges:
  assumes "splitByMax_loop mx remaining chunks = Some result"
  shows "\<not> (mx \<le> 0 \<and> 0 < remaining)"
proof (rule splitByMax_loop.raw_induct
    [where P = "\<lambda>mx remaining chunks result. \<not> (mx \<le> 0 \<and> 0 < remaining)", OF _ assms])
  fix loop :: "int \<Rightarrow> int \<Rightarrow> int list \<Rightarrow> int list option"
    and mx remaining :: int and chunks result :: "int list"
  assume IH: "\<And>mx remaining chunks result.
                loop mx remaining chunks = Some result \<Longrightarrow> \<not> (mx \<le> 0 \<and> 0 < remaining)"
    and step: "(if 0 < remaining
                then let chunk = if mx < remaining then mx else remaining
                     in loop mx (remaining - chunk) (chunks @ [chunk])
                else Some chunks) = Some result"
  show "\<not> (mx \<le> 0 \<and> 0 < remaining)"
  proof
    assume a: "mx \<le> 0 \<and> 0 < remaining"
    then have "loop mx (remaining - mx) (chunks @ [mx]) = Some result"
      using step by (simp add: Let_def)
    then have "\<not> (mx \<le> 0 \<and> 0 < remaining - mx)" by (rule IH)
    then show False using a by simp
  qed
qed

lemma splitByMax_diverges: "mx \<le> 0 \<Longrightarrow> 0 < total' \<Longrightarrow> splitByMax total' mx = None"
  using splitByMax_loop_diverges [of mx total' "[]"]
  by (cases "splitByMax total' mx") (auto simp: splitByMax_def)

lemma splitIntoN_loop_eq:
  assumes n: "1 \<le> n" "n \<le> 2 ^ 53" and i: "0 \<le> i" "i < n"
  shows "splitIntoN_loop n part i r acc =
         Some (acc @ replicate (nat (n - 1 - i)) part @ [r - (n - 1 - i) * part])"
  using i
proof (induction "nat (n - 1 - i)" arbitrary: i r acc rule: less_induct)
  case less
  have rn: "round_double (n - 1) = n - 1" using n by (intro round_double_exact) simp
  have ri: "round_double (i + 1) = i + 1" using n less.prems by (intro round_double_exact) simp
  show ?case
  proof (cases "i = n - 1")
    case True
    have "splitIntoN_loop n part i r acc = splitIntoN_loop n part n 0 (acc @ [r])"
      using True less.prems rn ri by (subst splitIntoN_loop.simps) simp
    also have "\<dots> = Some (acc @ [r])"
      by (subst splitIntoN_loop.simps) simp
    finally show ?thesis using True by simp
  next
    case False
    then have lt: "i + 1 < n" using less.prems by simp
    have step: "splitIntoN_loop n part i r acc
                = splitIntoN_loop n part (i + 1) (r - part) (acc @ [part])"
      using False less.prems rn ri by (subst splitIntoN_loop.simps) simp
    have m: "nat (n - 1 - (i + 1)) < nat (n - 1 - i)" using lt by simp
    have i0: "0 \<le> i + 1" using less.prems by simp
    have rep: "replicate (nat (n - 1 - i)) part = part # replicate (nat (n - 1 - (i + 1))) part"
      using lt by (cases "nat (n - 1 - i)") (simp_all add: nat_diff_distrib')
    have val: "r - part - (n - 1 - (i + 1)) * part = r - (n - 1 - i) * part"
      by (simp add: algebra_simps)
    show ?thesis
      unfolding step less.hyps [OF m i0 lt] rep val by simp
  qed
qed

lemma splitIntoN_eq:
  assumes "0 \<le> t" "1 \<le> n" "n \<le> 2 ^ 53"
  shows "splitIntoN t n =
         Some (Inr (replicate (nat (n - 1)) (t div n) @ [t - (n - 1) * (t div n)]))"
proof -
  have "bigint_div t n = Inr (t div n)" using assms by (simp add: bigint_div_nonneg)
  then show ?thesis
    using splitIntoN_loop_eq [OF assms(2,3), of 0 "t div n" t "[]"] assms(2)
    by (simp add: splitIntoN_def)
qed

lemma splitByMax_loop_eq:
  assumes "0 < mx" "0 \<le> r"
  shows "splitByMax_loop mx r acc =
         Some (acc @ replicate (nat (r div mx)) mx @ (if r mod mx = 0 then [] else [r mod mx]))"
  using assms(2)
proof (induction "nat r" arbitrary: r acc rule: less_induct)
  case less
  consider "r = 0" | "0 < r" "r < mx" | "r = mx" | "mx < r" using less.prems by linarith
  then show ?case
  proof cases
    case 1
    then show ?thesis by (subst splitByMax_loop.simps) simp
  next
    case 2
    have "splitByMax_loop mx r acc = splitByMax_loop mx 0 (acc @ [r])"
      using 2 by (subst splitByMax_loop.simps) simp
    also have "\<dots> = Some (acc @ [r])"
      by (subst splitByMax_loop.simps) simp
    finally show ?thesis using 2 by simp
  next
    case 3
    have "splitByMax_loop mx r acc = splitByMax_loop mx 0 (acc @ [r])"
      using 3 assms(1) by (subst splitByMax_loop.simps) simp
    also have "\<dots> = Some (acc @ [r])"
      by (subst splitByMax_loop.simps) simp
    finally show ?thesis using 3 assms(1) by simp
  next
    case 4
    have step: "splitByMax_loop mx r acc = splitByMax_loop mx (r - mx) (acc @ [mx])"
      using 4 assms(1) by (subst splitByMax_loop.simps) simp
    have lt: "nat (r - mx) < nat r" and nn: "0 \<le> r - mx" using 4 assms(1) by simp_all
    have "((r - mx) + mx) div mx = (r - mx) div mx + 1"
      using assms(1) by (subst div_add_self2) simp_all
    then have d: "(r - mx) div mx = r div mx - 1" by simp
    have "((r - mx) + mx) mod mx = (r - mx) mod mx" by (rule mod_add_self2)
    then have m: "(r - mx) mod mx = r mod mx" by simp
    have "0 < r div mx" using 4 assms(1) by (simp add: pos_imp_zdiv_pos_iff)
    then have rep: "replicate (nat (r div mx)) mx = mx # replicate (nat (r div mx - 1)) mx"
      by (cases "nat (r div mx)") (simp_all add: nat_diff_distrib')
    show ?thesis
      unfolding step less.hyps [OF lt nn] d m rep by simp
  qed
qed

lemma ceiling_div_int:
  fixes a b :: int
  assumes "0 < b"
  shows "\<lceil>real_of_int a / real_of_int b\<rceil> = a div b + (if a mod b = 0 then 0 else 1)"
    and "(a + b - 1) div b = a div b + (if a mod b = 0 then 0 else 1)"
proof -
  show "\<lceil>real_of_int a / real_of_int b\<rceil> = a div b + (if a mod b = 0 then 0 else 1)"
    using assms by (simp add: ceiling_divide_eq_div zdiv_zminus1_eq_if)
  show "(a + b - 1) div b = a div b + (if a mod b = 0 then 0 else 1)"
  proof (cases "a mod b = 0")
    case True
    from True have "b dvd a" by (simp add: dvd_eq_mod_eq_0)
    then have "a = b * (a div b)" by simp
    then have e: "a + b - 1 = b * (a div b) + (b - 1)"
      by linarith
    have "(a + b - 1) div b = a div b"
      by (rule int_div_pos_eq [OF e]) (use assms in simp_all)
    then show ?thesis using True by simp
  next
    case False
    have m: "0 < a mod b" "a mod b < b"
      using False pos_mod_sign [OF assms, of a] pos_mod_bound [OF assms, of a] by linarith+
    have e: "a + b - 1 = b * (a div b + 1) + (a mod b - 1)"
      using mult_div_mod_eq [of b a] by (simp add: algebra_simps)
    have "(a + b - 1) div b = a div b + 1"
      by (rule int_div_pos_eq [OF e]) (use assms m in simp_all)
    then show ?thesis using False by simp
  qed
qed

text \<open>
  C6: for every non-negative total and every positive max, \<open>splitByMax\<close> returns (the
  loop ends), the chunks add up to the total exactly, every chunk is at most max, and
  there are \<open>\<lceil>total / max\<rceil>\<close> of them.
\<close>

theorem splitByMax_chunks:
  assumes "0 \<le> total'" "0 < mx"
  shows "\<exists>chunks. splitByMax total' mx = Some chunks
           \<and> sum_list chunks = total'
           \<and> (\<forall>c \<in> set chunks. c \<le> mx)
           \<and> int (length chunks) = \<lceil>real_of_int total' / real_of_int mx\<rceil>"
proof -
  let ?k = "nat (total' div mx)"
  let ?tl = "if total' mod mx = 0 then [] else [total' mod mx]"
  let ?chunks = "replicate ?k mx @ ?tl"
  have d0: "0 \<le> total' div mx" using assms by (simp add: pos_imp_zdiv_nonneg_iff)
  have run: "splitByMax total' mx = Some ?chunks"
    using splitByMax_loop_eq [OF assms(2) assms(1), of "[]"] by (simp add: splitByMax_def)
  have total: "sum_list ?chunks = total'"
    using d0 div_mult_mod_eq [of total' mx] by (auto simp: sum_list_replicate)
  have bound: "\<forall>c \<in> set ?chunks. c \<le> mx"
    using assms(2) pos_mod_bound [of mx total'] by (auto simp: less_imp_le)
  have "int (length ?chunks) = total' div mx + (if total' mod mx = 0 then 0 else 1)"
    using d0 by simp
  then have count: "int (length ?chunks) = \<lceil>real_of_int total' / real_of_int mx\<rceil>"
    using ceiling_div_int(1) [OF assms(2), of total'] by simp
  show ?thesis using run total bound count by blast
qed

theorem splitByMax_chunks_witness:
  "splitByMax 10 3 = Some [3, 3, 3, 1] \<and> sum_list [3, 3, 3, 1] = (10::int)
   \<and> int (length [3, 3, 3, 1::int]) = \<lceil>real_of_int 10 / real_of_int 3\<rceil>"
proof -
  have run: "splitByMax 10 3 = Some [3, 3, 3, 1]" by code_simp
  show ?thesis using splitByMax_chunks [of 10 3] run by auto
qed

text \<open>
  The two planning statements of \<^verbatim>\<open>sell\<close>: the whole input \<open>T\<close> is quoted once, with
  \<open>calcSell\<close>. When the quoted proceeds are at most the ceiling the plan is the single
  chunk \<open>[T]\<close>. Otherwise it is \<open>splitIntoN T n\<close> with \<open>n = \<lceil>quoted / ceiling\<rceil>\<close>, which
  returns exactly \<open>n\<close> chunks adding up to \<open>T\<close>; every chunk before the last is
  \<open>\<lfloor>T / n\<rfloor>\<close> and the last one is \<open>\<lfloor>T / n\<rfloor>\<close> plus the remainder \<open>T mod n\<close>.
\<close>

lemma sell_tokenChunks_cases:
  assumes "0 \<le> virtualSolReserves s" "0 \<le> virtualTokenReserves s"
    and "0 \<le> T" "0 < virtualTokenReserves s + T" "0 < mx"
  shows "\<exists>totalSolOut.
           calcSell T s = Inr totalSolOut
           \<and> (totalSolOut \<le> mx \<longrightarrow> sell_tokenChunks T s mx = Some (Inr [T]))
           \<and> (mx < totalSolOut \<and> \<lceil>real_of_int totalSolOut / real_of_int mx\<rceil> \<le> 2 ^ 53 \<longrightarrow>
                (\<exists>n chunks.
                   n = \<lceil>real_of_int totalSolOut / real_of_int mx\<rceil>
                   \<and> sell_tokenChunks T s mx = splitIntoN T n
                   \<and> splitIntoN T n = Some (Inr chunks)
                   \<and> sum_list chunks = T
                   \<and> int (length chunks) = n
                   \<and> (\<forall>k. Suc k < length chunks \<longrightarrow> chunks ! k = T div n)
                   \<and> last chunks = T div n + T mod n))"
proof -
  let ?q = "virtualSolReserves s
            - (virtualSolReserves s * virtualTokenReserves s) div (virtualTokenReserves s + T)"
  have quote: "calcSell T s = Inr ?q"
    using assms by (simp add: calcSell_nonneg)
  have single: "?q \<le> mx \<longrightarrow> sell_tokenChunks T s mx = Some (Inr [T])"
    by (simp add: sell_tokenChunks_def plan_tokenChunks_def quote)
  have split: "\<exists>n chunks.
                   n = \<lceil>real_of_int ?q / real_of_int mx\<rceil>
                   \<and> sell_tokenChunks T s mx = splitIntoN T n
                   \<and> splitIntoN T n = Some (Inr chunks)
                   \<and> sum_list chunks = T
                   \<and> int (length chunks) = n
                   \<and> (\<forall>k. Suc k < length chunks \<longrightarrow> chunks ! k = T div n)
                   \<and> last chunks = T div n + T mod n"
    if big: "mx < ?q" and fits: "\<lceil>real_of_int ?q / real_of_int mx\<rceil> \<le> 2 ^ 53"
  proof -
    define n where "n = \<lceil>real_of_int ?q / real_of_int mx\<rceil>"
    have n_div: "n = (?q + mx - 1) div mx"
      unfolding n_def using ceiling_div_int [OF assms(5), of ?q] by simp
    have q0: "0 \<le> ?q + mx - 1" using big assms(5) by simp
    have "0 < ?q div mx" using big assms(5) by (simp add: pos_imp_zdiv_pos_iff)
    then have n1: "1 \<le> n"
      unfolding n_def using ceiling_div_int(1) [OF assms(5), of ?q] by simp
    have n53: "n \<le> 2 ^ 53" using fits by (simp add: n_def)
    have rd: "round_double n = n" using n1 n53 by (intro round_double_exact) simp
    have plan: "sell_tokenChunks T s mx = splitIntoN T n"
      using big assms(5) q0 rd
      by (simp add: sell_tokenChunks_def plan_tokenChunks_def quote bigint_div_nonneg n_div)
    let ?chunks = "replicate (nat (n - 1)) (T div n) @ [T - (n - 1) * (T div n)]"
    have run: "splitIntoN T n = Some (Inr ?chunks)"
      by (rule splitIntoN_eq [OF assms(3) n1 n53])
    have total: "sum_list ?chunks = T"
      using n1 by (simp add: sum_list_replicate)
    have count: "int (length ?chunks) = n" using n1 by simp
    have parts: "\<forall>k. Suc k < length ?chunks \<longrightarrow> ?chunks ! k = T div n"
      by (simp add: nth_append)
    have "T - (n - 1) * (T div n) = T div n + (T - n * (T div n))"
      by (simp add: algebra_simps)
    also have "T - n * (T div n) = T mod n"
      by (simp add: minus_mult_div_eq_mod)
    finally have final: "last ?chunks = T div n + T mod n" by simp
    show ?thesis
      using n_def plan run total count parts final by blast
  qed
  show ?thesis
    using quote single split by blast
qed

lemma sell_tokenChunks_sample:
  "calcSell 10 \<lparr>virtualTokenReserves = 10, virtualSolReserves = 100,
       realTokenReserves = 0, realSolReserves = 0, tokenTotalSupply = 0, complete = False\<rparr> = Inr 50
   \<and> sell_tokenChunks 10 \<lparr>virtualTokenReserves = 10, virtualSolReserves = 100,
       realTokenReserves = 0, realSolReserves = 0, tokenTotalSupply = 0, complete = False\<rparr> 20
       = Some (Inr [3, 3, 4])
   \<and> sell_tokenChunks 10 \<lparr>virtualTokenReserves = 10, virtualSolReserves = 100,
       realTokenReserves = 0, realSolReserves = 0, tokenTotalSupply = 0, complete = False\<rparr> 50
       = Some (Inr [10])"
proof -
  let ?s = "\<lparr>virtualTokenReserves = 10, virtualSolReserves = 100,
       realTokenReserves = 0, realSolReserves = 0, tokenTotalSupply = 0, complete = False\<rparr>"
  have q: "calcSell 10 ?s = Inr 50" by (simp add: calcSell_def bigint_div_def)
  have c: "\<lceil>real_of_int 50 / real_of_int 20\<rceil> = 3" by (simp add: ceiling_div_int)
  have r: "splitIntoN 10 3 = Some (Inr [3, 3, 4])" by code_simp
  show ?thesis
    using sell_tokenChunks_cases [of ?s 10 20] sell_tokenChunks_cases [of ?s 10 50] q c r
    by auto
qed

section \<open>Properties of the confirmation poller\<close>




text \<open>
  With \<open>maxAttempts\<close> of \<open>2^53\<close> or more the attempt counter cannot pass it: a transaction
  that is never found (below the ceiling) is polled for ever.
\<close>

lemma poll_loop_keeps_polling:
  assumes "poll_loop c sig lv maxAttempts attempt k = Some result"
  shows "\<not> (2 ^ 53 \<le> maxAttempts \<and> 0 \<le> attempt \<and> attempt \<le> 2 ^ 53
            \<and> (\<forall>j. poll_try c sig lv j = Inr None))"
proof (rule poll_loop.raw_induct
    [where P = "\<lambda>c sig lv maxAttempts attempt k result.
                  \<not> (2 ^ 53 \<le> maxAttempts \<and> 0 \<le> attempt \<and> attempt \<le> 2 ^ 53
                     \<and> (\<forall>j. poll_try c sig lv j = Inr None))", OF _ assms])
  fix loop :: "status_source \<Rightarrow> string \<Rightarrow> int \<Rightarrow> int \<Rightarrow> int \<Rightarrow> nat
                 \<Rightarrow> ((js_error + string) \<times> nat) option"
    and c sig lv maxAttempts attempt k result
  assume IH: "\<And>c sig lv maxAttempts attempt k result.
                loop c sig lv maxAttempts attempt k = Some result \<Longrightarrow>
                \<not> (2 ^ 53 \<le> maxAttempts \<and> 0 \<le> attempt \<and> attempt \<le> 2 ^ 53
                   \<and> (\<forall>j. poll_try c sig lv j = Inr None))"
    and step: "(if attempt \<le> maxAttempts then
        (case poll_try c sig lv k of
           Inr (Some s) \<Rightarrow> Some (Inr s, Suc k)
         | Inr None \<Rightarrow> loop c sig lv maxAttempts (round_double (attempt + 1)) (Suc k)
         | Inl e \<Rightarrow>
             if poll_rethrows e then Some (Inl e, Suc k)
             else loop c sig lv maxAttempts (round_double (attempt + 1)) (Suc k))
      else Some (Inl (timeout_error maxAttempts sig), k)) = Some result"
  show "\<not> (2 ^ 53 \<le> maxAttempts \<and> 0 \<le> attempt \<and> attempt \<le> 2 ^ 53
            \<and> (\<forall>j. poll_try c sig lv j = Inr None))"
  proof
    assume a: "2 ^ 53 \<le> maxAttempts \<and> 0 \<le> attempt \<and> attempt \<le> 2 ^ 53
               \<and> (\<forall>j. poll_try c sig lv j = Inr None)"
    then have next_call: "loop c sig lv maxAttempts (round_double (attempt + 1)) (Suc k) = Some result"
      using step by simp
    have "0 \<le> round_double (attempt + 1) \<and> round_double (attempt + 1) \<le> 2 ^ 53"
      using a by (intro round_double_stays_below) simp_all
    then show False using IH [OF next_call] a by simp
  qed
qed

lemma confirmTransactionWithPolling_never_returns:
  assumes "2 ^ 53 \<le> maxAttempts" and "\<forall>j. poll_try c sig lv j = Inr None"
  shows "confirmTransactionWithPolling c sig lv maxAttempts = None"
proof (cases "confirmTransactionWithPolling c sig lv maxAttempts")
  case None
  then show ?thesis .
next
  case (Some result)
  then have "poll_loop c sig lv maxAttempts 1 0 = Some result"
    by (simp add: confirmTransactionWithPolling_def)
  from poll_loop_keeps_polling [OF this] assms show ?thesis by simp
qed







section \<open>Properties of the event decoder\<close>

lemma decode_sample_line_A:
  "decode_line (Some sample_mint_B) ''5sig'' sample_line_A = Return"
  by code_simp

lemma decode_sample_line_B:
  "decode_line (Some sample_mint_B) ''5sig'' sample_line_B =
     Callback \<lparr>mint = ''8qbHbw2BbbTHBW1sbeqakYXVKRQM8Ne7pLK7m6CVfeR'', solAmount = 5,
       tokenAmount = 7, isBuy = False,
       user = ''GgBaCs3NCBuZN12kCJgAW63ydqohFkHEdfdEXBPzLHq'',
       timestamp = 1700000001, event_signature = ''5sig''\<rparr>"
  by code_simp

text \<open>
  C3: with a mint filter, a trade-event line of another mint is dropped without a call
  to the callback, and the callback is still called for every matching line of the same
  log message, also for those after a line of another mint. The first half holds; the
  second does not, because the handler leaves with \<^verbatim>\<open>return\<close> where the two checks
  before it use \<^verbatim>\<open>continue\<close>. With the filter \<open>sample_mint_B\<close>, a message whose lines are
  a trade of another mint followed by a trade of the filtered mint calls the callback
  not at all; the same two lines in the other order deliver the matching event.
\<close>

theorem listenTrades_misses_matching_line_after_other_mint:
  "listenTrades (Some sample_mint_B)
     \<lparr>logs = [sample_line_A, sample_line_B], log_signature = ''5sig''\<rparr> = ([], None)
   \<and> listenTrades (Some sample_mint_B)
     \<lparr>logs = [sample_line_B, sample_line_A], log_signature = ''5sig''\<rparr> =
     ([\<lparr>mint = ''8qbHbw2BbbTHBW1sbeqakYXVKRQM8Ne7pLK7m6CVfeR'', solAmount = 5,
        tokenAmount = 7, isBuy = False,
        user = ''GgBaCs3NCBuZN12kCJgAW63ydqohFkHEdfdEXBPzLHq'',
        timestamp = 1700000001, event_signature = ''5sig''\<rparr>], None)"
  by (simp add: listenTrades_def decode_sample_line_A decode_sample_line_B)

section \<open>Properties of the executor\<close>

lemma detectTokenProgram_submitted:
  "detectTokenProgram env trader tokenAddr = (r, trader') \<Longrightarrow> submitted trader' = submitted trader"
  by (auto simp: detectTokenProgram_def split: option.splits sum.splits)

lemma loadGlobal_submitted:
  "loadGlobal env trader = (r, trader') \<Longrightarrow> submitted trader' = submitted trader"
  by (auto simp: loadGlobal_def split: option.splits sum.splits)

lemma ensureGlobal_submitted:
  "ensureGlobal env trader = (r, trader') \<Longrightarrow> submitted trader' = submitted trader"
  by (auto simp: ensureGlobal_def dest: loadGlobal_submitted split: if_splits prod.splits sum.splits)

lemma buy_completed:
  assumes "PublicKey_from_string tokenAddr = Inr mintKey"
    and "loadBonding env mintKey = Inr info" and "complete (state info)"
  shows "\<exists>e trader'.
           buy env trader tokenAddr totalSolIn tradeOpt = Some (Inl e, trader')
           \<and> submitted trader' = submitted trader
           \<and> ((\<exists>tokenProgram trader1 trader2.
                  detectTokenProgram env trader tokenAddr = (Inr tokenProgram, trader1)
                  \<and> ensureGlobal env trader1 = (Inr (), trader2))
                \<longrightarrow> e = Error ''Bonding curve already completed'')"
proof (cases "detectTokenProgram env trader tokenAddr")
  case d: (Pair r1 trader1)
  have s1: "submitted trader1 = submitted trader" using d by (rule detectTokenProgram_submitted)
  show ?thesis
  proof (cases r1)
    case (Inl e)
    then show ?thesis using assms d s1 by (simp add: buy_def)
  next
    case (Inr tokenProgram)
    show ?thesis
    proof (cases "ensureGlobal env trader1")
      case g: (Pair r2 trader2)
      have s2: "submitted trader2 = submitted trader"
        using ensureGlobal_submitted [OF g] s1 by simp
      show ?thesis
        using assms d Inr g s2 by (cases r2) (simp_all add: buy_def)
    qed
  qed
qed

lemma sell_completed:
  assumes "PublicKey_from_string tokenAddr = Inr mintKey"
    and "loadBonding env mintKey = Inr info" and "complete (state info)"
  shows "\<exists>e trader'.
           sell env trader tokenAddr totalTokenIn tradeOpt = Some (Inl e, trader')
           \<and> submitted trader' = submitted trader
           \<and> ((\<exists>tokenProgram trader1 trader2.
                  detectTokenProgram env trader tokenAddr = (Inr tokenProgram, trader1)
                  \<and> ensureGlobal env trader1 = (Inr (), trader2))
                \<longrightarrow> e = Error ''Bonding curve already completed'')"
proof (cases "detectTokenProgram env trader tokenAddr")
  case d: (Pair r1 trader1)
  have s1: "submitted trader1 = submitted trader" using d by (rule detectTokenProgram_submitted)
  show ?thesis
  proof (cases r1)
    case (Inl e)
    then show ?thesis using assms d s1 by (simp add: sell_def)
  next
    case (Inr tokenProgram)
    show ?thesis
    proof (cases "ensureGlobal env trader1")
      case g: (Pair r2 trader2)
      have s2: "submitted trader2 = submitted trader"
        using ensureGlobal_submitted [OF g] s1 by simp
      show ?thesis
        using assms d Inr g s2 by (cases r2) (simp_all add: sell_def)
    qed
  qed
qed

text \<open>
  On an open curve the executor does plan and submit: a buy of 5 with a ceiling of 3
  per transaction is cut into 3 and 2, quoted at 2 and 1 tokens, and both orders are
  handed to the network; the first is pending, the second is recorded as failed.
\<close>

lemma buy_open_curve_submits:
  "map_option
     (\<lambda>(r, t). (r, map (\<lambda>d. (kind d, order_index d, amountIn d, quotedOut d)) (submitted t)))
     (buy open_curve_environment sample_trader sample_token 5 (sample_options\<lparr>maxSolPerTx := 3\<rparr>))
   = Some (Inr \<lparr>pendingTransactions =
                  [\<lparr>signature = ''5sig'', lastValidBlockHeight = 1000, index = 0\<rparr>],
                failedTransactions =
                  [\<lparr>failed_index = 1, error = ''blockhash not found''\<rparr>]\<rparr>,
           [(CurveBuy, 0, 3, 2), (CurveBuy, 1, 2, 1)])"
  by code_simp

lemma sample_token_key: "PublicKey_from_string sample_token = Inr SOL_MINT"
  by code_simp

text \<open>
  C4: when the bonding-curve state of the token has the completion flag set, \<^verbatim>\<open>buy\<close> and
  \<^verbatim>\<open>sell\<close> return no outcome lists: each call ends with an exception and hands no order
  to the network (the record of submitted orders is as before the call). The exception
  is the one of the completion check, \<^verbatim>\<open>Bonding curve already completed\<close>, whenever the
  two reads that the methods make before loading the curve (the token program and the
  global configuration) succeed; a read that throws ends the call with its own
  exception, again before anything is planned or sent.
\<close>

theorem curve_trade_rejects_completed_curve:
  assumes "PublicKey_from_string tokenAddr = Inr mintKey"
    and "loadBonding env mintKey = Inr info" and "complete (state info)"
  shows "(\<exists>e trader'.
           buy env trader tokenAddr total' tradeOpt = Some (Inl e, trader')
           \<and> submitted trader' = submitted trader
           \<and> ((\<exists>tokenProgram trader1 trader2.
                  detectTokenProgram env trader tokenAddr = (Inr tokenProgram, trader1)
                  \<and> ensureGlobal env trader1 = (Inr (), trader2))
                \<longrightarrow> e = Error ''Bonding curve already completed''))
       \<and> (\<exists>e trader'.
           sell env trader tokenAddr total' tradeOpt = Some (Inl e, trader')
           \<and> submitted trader' = submitted trader
           \<and> ((\<exists>tokenProgram trader1 trader2.
                  detectTokenProgram env trader tokenAddr = (Inr tokenProgram, trader1)
                  \<and> ensureGlobal env trader1 = (Inr (), trader2))
                \<longrightarrow> e = Error ''Bonding curve already completed''))"
  using buy_completed [OF assms] sell_completed [OF assms] by blast

theorem curve_trade_rejects_completed_curve_witness:
  "(\<exists>trader'. buy completed_curve_environment sample_trader sample_token 100000000 sample_options
        = Some (Inl (Error ''Bonding curve already completed''), trader')
      \<and> submitted trader' = [])
   \<and> (\<exists>trader'. sell completed_curve_environment sample_trader sample_token 100000000 sample_options
        = Some (Inl (Error ''Bonding curve already completed''), trader')
      \<and> submitted trader' = [])"
proof -
  let ?env = completed_curve_environment
  have l: "loadBonding ?env SOL_MINT =
             Inr \<lparr>bonding = PublicKey 2,
                  state = \<lparr>virtualTokenReserves = 0, virtualSolReserves = 0, realTokenReserves = 0,
                           realSolReserves = 0, tokenTotalSupply = 0, complete = True\<rparr>,
                  creator = PublicKey 0\<rparr>"
    by code_simp
  have d: "detectTokenProgram ?env sample_trader sample_token =
             (Inr TOKEN_2022_PROGRAM_ID,
              sample_trader\<lparr>tokenProgramCache := [sample_token \<mapsto> TOKEN_2022_PROGRAM_ID]\<rparr>)"
    by (simp add: detectTokenProgram_def sample_token_key sample_trader_def
        completed_curve_environment_def)
  have "fst (ensureGlobal ?env
             (sample_trader\<lparr>tokenProgramCache := [sample_token \<mapsto> TOKEN_2022_PROGRAM_ID]\<rparr>))
           = Inr ()"
    by code_simp
  then have g: "\<exists>trader2. ensureGlobal ?env
             (sample_trader\<lparr>tokenProgramCache := [sample_token \<mapsto> TOKEN_2022_PROGRAM_ID]\<rparr>)
             = (Inr (), trader2)"
    by (metis prod.collapse)
  show ?thesis
    using curve_trade_rejects_completed_curve
      [OF sample_token_key l, of sample_trader 100000000 sample_options] d g
    by (auto simp: sample_trader_def)
qed

text \<open>
  The pass over a plan gives one outcome for every chunk, and hands to the network one
  order for every chunk whose quote exists, with the chunk as its amount and in the
  order of the plan. On an open curve \<^verbatim>\<open>sell\<close> is that pass over the plan of
  \<open>sell_tokenChunks\<close>, quoting each chunk with \<open>calcSell\<close> on the state that was loaded.
\<close>

lemma execute_orders_outcomes:
  "execute_orders env k opt quote i chunks = (result, orders) \<Longrightarrow>
   length (pendingTransactions result) + length (failedTransactions result) = length chunks"
  by (induction chunks arbitrary: i result orders)
     (auto simp: Let_def split: prod.splits sum.splits)

lemma execute_orders_amounts:
  "execute_orders env k opt quote i chunks = (result, orders) \<Longrightarrow>
   map amountIn orders = filter (\<lambda>x. \<not> isl (quote x)) chunks"
  by (induction chunks arbitrary: i result orders)
     (auto simp: Let_def split: prod.splits sum.splits)

lemma sell_open_curve:
  assumes "PublicKey_from_string tokenAddr = Inr mintKey"
    and "detectTokenProgram env trader tokenAddr = (Inr tokenProgram, trader1)"
    and "ensureGlobal env trader1 = (Inr u, trader2)"
    and "loadBonding env mintKey = Inr info" and "\<not> complete (state info)"
    and "sell_tokenChunks T (state info) (maxSolPerTx tradeOpt) = Some (Inr chunks)"
    and "execute_orders env CurveSell tradeOpt (\<lambda>tokenIn. calcSell tokenIn (state info)) 0 chunks
           = (result, orders)"
  shows "sell env trader tokenAddr T tradeOpt
           = Some (Inr result, trader2\<lparr>submitted := submitted trader2 @ orders\<rparr>)"
  using assms by (simp add: sell_def)

text \<open>
  C5: every \<^verbatim>\<open>sell\<close> of \<open>T\<close> tokens on an open curve quotes the whole \<open>T\<close> once, with
  \<open>calcSell\<close>, and then runs the orders of its plan. When the quoted proceeds are at
  most the ceiling \<^verbatim>\<open>maxSolPerTx\<close> the plan is the single chunk \<open>[T]\<close>: the call returns the
  outcome of that one order, which is sent with amount \<open>T\<close> and the quote of the whole.
  Otherwise the plan is \<open>splitIntoN T n\<close> with \<open>n = \<lceil>quoted / ceiling\<rceil>\<close>, which returns
  exactly \<open>n\<close> chunks adding up to \<open>T\<close>; every chunk before the last is \<open>\<lfloor>T / n\<rfloor>\<close> and
  the last one is \<open>\<lfloor>T / n\<rfloor>\<close> plus the remainder \<open>T mod n\<close>; the call returns the outcomes
  of the pass over those chunks, one for each chunk, and the orders it sends carry the
  chunks that can be quoted, in the order of the plan. The statement is for a call
  whose reads succeed and find the curve open, unsigned reserves, an unsigned input
  with \<open>Vt + T > 0\<close> (so that the quote exists), a positive ceiling, and a chunk count
  that a number holds exactly (\<open>n \<le> 2^53\<close>).
\<close>

theorem sell_executes_token_plan:
  assumes "PublicKey_from_string tokenAddr = Inr mintKey"
    and "detectTokenProgram env trader tokenAddr = (Inr tokenProgram, trader1)"
    and "ensureGlobal env trader1 = (Inr u, trader2)"
    and "loadBonding env mintKey = Inr info" and "\<not> complete (state info)"
    and "0 \<le> virtualSolReserves (state info)" "0 \<le> virtualTokenReserves (state info)"
    and "0 \<le> T" "0 < virtualTokenReserves (state info) + T" "0 < maxSolPerTx tradeOpt"
  shows "\<exists>totalSolOut.
           calcSell T (state info) = Inr totalSolOut
           \<and> (totalSolOut \<le> maxSolPerTx tradeOpt \<longrightarrow>
                sell_tokenChunks T (state info) (maxSolPerTx tradeOpt) = Some (Inr [T])
                \<and> (\<exists>result orders.
                      execute_orders env CurveSell tradeOpt
                        (\<lambda>tokenIn. calcSell tokenIn (state info)) 0 [T] = (result, orders)
                      \<and> sell env trader tokenAddr T tradeOpt
                          = Some (Inr result, trader2\<lparr>submitted := submitted trader2 @ orders\<rparr>)
                      \<and> map (\<lambda>d. (kind d, order_index d, amountIn d, quotedOut d)) orders
                          = [(CurveSell, 0, T, totalSolOut)]))
           \<and> (maxSolPerTx tradeOpt < totalSolOut
                \<and> \<lceil>real_of_int totalSolOut / real_of_int (maxSolPerTx tradeOpt)\<rceil> \<le> 2 ^ 53 \<longrightarrow>
                (\<exists>n chunks result orders.
                   n = \<lceil>real_of_int totalSolOut / real_of_int (maxSolPerTx tradeOpt)\<rceil>
                   \<and> sell_tokenChunks T (state info) (maxSolPerTx tradeOpt) = splitIntoN T n
                   \<and> splitIntoN T n = Some (Inr chunks)
                   \<and> sum_list chunks = T
                   \<and> int (length chunks) = n
                   \<and> (\<forall>k. Suc k < length chunks \<longrightarrow> chunks ! k = T div n)
                   \<and> last chunks = T div n + T mod n
                   \<and> execute_orders env CurveSell tradeOpt
                        (\<lambda>tokenIn. calcSell tokenIn (state info)) 0 chunks = (result, orders)
                   \<and> sell env trader tokenAddr T tradeOpt
                       = Some (Inr result, trader2\<lparr>submitted := submitted trader2 @ orders\<rparr>)
                   \<and> length (pendingTransactions result) + length (failedTransactions result)
                       = length chunks
                   \<and> map amountIn orders
                       = filter (\<lambda>tokenIn. \<not> isl (calcSell tokenIn (state info))) chunks))"
proof -
  let ?s = "state info" and ?mx = "maxSolPerTx tradeOpt"
  let ?quote = "\<lambda>tokenIn. calcSell tokenIn ?s"
  from sell_tokenChunks_cases [OF assms(6-10)]
  obtain totalSolOut where quote: "calcSell T ?s = Inr totalSolOut"
    and single: "totalSolOut \<le> ?mx \<longrightarrow> sell_tokenChunks T ?s ?mx = Some (Inr [T])"
    and split: "?mx < totalSolOut \<and> \<lceil>real_of_int totalSolOut / real_of_int ?mx\<rceil> \<le> 2 ^ 53 \<longrightarrow>
                (\<exists>n chunks.
                   n = \<lceil>real_of_int totalSolOut / real_of_int ?mx\<rceil>
                   \<and> sell_tokenChunks T ?s ?mx = splitIntoN T n
                   \<and> splitIntoN T n = Some (Inr chunks)
                   \<and> sum_list chunks = T
                   \<and> int (length chunks) = n
                   \<and> (\<forall>k. Suc k < length chunks \<longrightarrow> chunks ! k = T div n)
                   \<and> last chunks = T div n + T mod n)"
    by blast
  have one: "totalSolOut \<le> ?mx \<longrightarrow>
             sell_tokenChunks T ?s ?mx = Some (Inr [T])
             \<and> (\<exists>result orders.
                   execute_orders env CurveSell tradeOpt ?quote 0 [T] = (result, orders)
                   \<and> sell env trader tokenAddr T tradeOpt
                       = Some (Inr result, trader2\<lparr>submitted := submitted trader2 @ orders\<rparr>)
                   \<and> map (\<lambda>d. (kind d, order_index d, amountIn d, quotedOut d)) orders
                       = [(CurveSell, 0, T, totalSolOut)])"
  proof
    assume small: "totalSolOut \<le> ?mx"
    have plan: "sell_tokenChunks T ?s ?mx = Some (Inr [T])" using single small by simp
    obtain result orders
      where run: "execute_orders env CurveSell tradeOpt ?quote 0 [T] = (result, orders)"
      by (cases "execute_orders env CurveSell tradeOpt ?quote 0 [T]")
    have sent: "map (\<lambda>d. (kind d, order_index d, amountIn d, quotedOut d)) orders
                  = [(CurveSell, 0, T, totalSolOut)]"
      using run quote by (auto simp: Let_def split: sum.splits prod.splits)
    note sold = sell_open_curve [OF assms(1-5) plan run]
    from plan run sold sent
    show "sell_tokenChunks T ?s ?mx = Some (Inr [T])
             \<and> (\<exists>result orders.
                   execute_orders env CurveSell tradeOpt ?quote 0 [T] = (result, orders)
                   \<and> sell env trader tokenAddr T tradeOpt
                       = Some (Inr result, trader2\<lparr>submitted := submitted trader2 @ orders\<rparr>)
                   \<and> map (\<lambda>d. (kind d, order_index d, amountIn d, quotedOut d)) orders
                       = [(CurveSell, 0, T, totalSolOut)])"
      by (intro conjI exI) assumption+
  qed
  define executed where "executed n chunks result orders \<longleftrightarrow>
                   n = \<lceil>real_of_int totalSolOut / real_of_int ?mx\<rceil>
                   \<and> sell_tokenChunks T ?s ?mx = splitIntoN T n
                   \<and> splitIntoN T n = Some (Inr chunks)
                   \<and> sum_list chunks = T
                   \<and> int (length chunks) = n
                   \<and> (\<forall>k. Suc k < length chunks \<longrightarrow> chunks ! k = T div n)
                   \<and> last chunks = T div n + T mod n
                   \<and> execute_orders env CurveSell tradeOpt ?quote 0 chunks = (result, orders)
                   \<and> sell env trader tokenAddr T tradeOpt
                       = Some (Inr result, trader2\<lparr>submitted := submitted trader2 @ orders\<rparr>)
                   \<and> length (pendingTransactions result) + length (failedTransactions result)
                       = length chunks
                   \<and> map amountIn orders = filter (\<lambda>tokenIn. \<not> isl (?quote tokenIn)) chunks"
    for n chunks result orders
  have many: "?mx < totalSolOut \<and> \<lceil>real_of_int totalSolOut / real_of_int ?mx\<rceil> \<le> 2 ^ 53 \<longrightarrow>
              (\<exists>n chunks result orders. executed n chunks result orders)"
  proof
    assume big: "?mx < totalSolOut \<and> \<lceil>real_of_int totalSolOut / real_of_int ?mx\<rceil> \<le> 2 ^ 53"
    from split big obtain n chunks
      where n: "n = \<lceil>real_of_int totalSolOut / real_of_int ?mx\<rceil>"
        and plan: "sell_tokenChunks T ?s ?mx = splitIntoN T n"
        and chunks: "splitIntoN T n = Some (Inr chunks)"
        and shape: "sum_list chunks = T" "int (length chunks) = n"
          "\<forall>k. Suc k < length chunks \<longrightarrow> chunks ! k = T div n"
          "last chunks = T div n + T mod n"
      by blast
    have plan': "sell_tokenChunks T ?s ?mx = Some (Inr chunks)" using plan chunks by simp
    obtain result orders
      where run: "execute_orders env CurveSell tradeOpt ?quote 0 chunks = (result, orders)"
      by (cases "execute_orders env CurveSell tradeOpt ?quote 0 chunks")
    note sold = sell_open_curve [OF assms(1-5) plan' run]
    have "executed n chunks result orders"
      unfolding executed_def
      using n plan chunks shape run sold
        execute_orders_outcomes [OF run] execute_orders_amounts [OF run]
      by (intro conjI) assumption+
    then show "\<exists>n chunks result orders. executed n chunks result orders" by blast
  qed
  from quote one many [unfolded executed_def] show ?thesis
    by (intro exI conjI) assumption+
qed

theorem sell_executes_token_plan_witness:
  "(\<exists>trader'.
      sell open_curve_environment sample_trader sample_token 7 (sample_options\<lparr>maxSolPerTx := 3\<rparr>)
        = Some (Inr \<lparr>pendingTransactions =
                       [\<lparr>signature = ''5sig'', lastValidBlockHeight = 1000, index = 0\<rparr>],
                     failedTransactions =
                       [\<lparr>failed_index = 1, error = ''blockhash not found''\<rparr>]\<rparr>,
                trader')
      \<and> map (\<lambda>d. (kind d, order_index d, amountIn d, quotedOut d)) (submitted trader')
          = [(CurveSell, 0, 3, 3), (CurveSell, 1, 4, 3)])
   \<and> (\<exists>trader'.
      sell open_curve_environment sample_trader sample_token 2 (sample_options\<lparr>maxSolPerTx := 3\<rparr>)
        = Some (Inr \<lparr>pendingTransactions =
                       [\<lparr>signature = ''5sig'', lastValidBlockHeight = 1000, index = 0\<rparr>],
                     failedTransactions = []\<rparr>,
                trader')
      \<and> map (\<lambda>d. (kind d, order_index d, amountIn d, quotedOut d)) (submitted trader')
          = [(CurveSell, 0, 2, 2)])"
proof -
  let ?env = open_curve_environment
  let ?opt = "sample_options\<lparr>maxSolPerTx := 3\<rparr>"
  let ?s = "\<lparr>virtualTokenReserves = 3, virtualSolReserves = 5, realTokenReserves = 0,
             realSolReserves = 0, tokenTotalSupply = 0, complete = False\<rparr>"
  let ?info = "\<lparr>bonding = PublicKey 2, state = ?s, creator = PublicKey 0\<rparr>"
  have l: "loadBonding ?env SOL_MINT = Inr ?info"
    by code_simp
  have d: "detectTokenProgram ?env sample_trader sample_token =
             (Inr TOKEN_2022_PROGRAM_ID,
              sample_trader\<lparr>tokenProgramCache := [sample_token \<mapsto> TOKEN_2022_PROGRAM_ID]\<rparr>)"
    by (simp add: detectTokenProgram_def sample_token_key sample_trader_def
        open_curve_environment_def)
  have "fst (ensureGlobal ?env
             (sample_trader\<lparr>tokenProgramCache := [sample_token \<mapsto> TOKEN_2022_PROGRAM_ID]\<rparr>))
           = Inr ()"
    by code_simp
  then obtain trader2 where g: "ensureGlobal ?env
             (sample_trader\<lparr>tokenProgramCache := [sample_token \<mapsto> TOKEN_2022_PROGRAM_ID]\<rparr>)
             = (Inr (), trader2)"
    by (metis prod.collapse)
  have s2: "submitted trader2 = []"
    using ensureGlobal_submitted [OF g] by (simp add: sample_trader_def)
  have q7: "calcSell 7 ?s = Inr 4" by (simp add: calcSell_def bigint_div_def)
  have q2: "calcSell 2 ?s = Inr 2" by (simp add: calcSell_def bigint_div_def)
  have c: "\<lceil>real_of_int 4 / real_of_int 3\<rceil> = 2" by (simp add: ceiling_div_int)
  have r: "splitIntoN 7 2 = Some (Inr [3, 4])" by code_simp
  have e7: "execute_orders ?env CurveSell ?opt (\<lambda>tokenIn. calcSell tokenIn ?s) 0 [3, 4]
            = (\<lparr>pendingTransactions =
                       [\<lparr>signature = ''5sig'', lastValidBlockHeight = 1000, index = 0\<rparr>],
                     failedTransactions =
                       [\<lparr>failed_index = 1, error = ''blockhash not found''\<rparr>]\<rparr>,
               [\<lparr>kind = CurveSell, order_index = 0, amountIn = 3, quotedOut = 3, options = ?opt\<rparr>,
                \<lparr>kind = CurveSell, order_index = 1, amountIn = 4, quotedOut = 3, options = ?opt\<rparr>])"
    by (simp add: calcSell_def bigint_div_def open_curve_environment_def)
  have e2: "execute_orders ?env CurveSell ?opt (\<lambda>tokenIn. calcSell tokenIn ?s) 0 [2]
            = (\<lparr>pendingTransactions =
                       [\<lparr>signature = ''5sig'', lastValidBlockHeight = 1000, index = 0\<rparr>],
                     failedTransactions = []\<rparr>,
               [\<lparr>kind = CurveSell, order_index = 0, amountIn = 2, quotedOut = 2, options = ?opt\<rparr>])"
    by (simp add: calcSell_def bigint_div_def open_curve_environment_def)
  have o: "maxSolPerTx ?opt = 3" by simp
  show ?thesis
    using
      sell_executes_token_plan
        [OF sample_token_key d g, where info = ?info and T = 7 and tradeOpt = ?opt]
      sell_executes_token_plan
        [OF sample_token_key d g, where info = ?info and T = 2 and tradeOpt = ?opt]
      l q7 q2 c r e7 e2 s2
    by (auto simp: o)
qed

lemma getTradeMode_amm: "isAmmCompleted env tokenAddr \<Longrightarrow> getTradeMode env tokenAddr = ''amm''"
  by (simp add: getTradeMode_def)

lemma loadBonding_query_error:
  "getAccountInfo env (getBondingPda env mintKey) = Inl e \<Longrightarrow> loadBonding env mintKey = Inl e"
  by (simp add: loadBonding_def)

lemma loadBonding_missing:
  "getAccountInfo env (getBondingPda env mintKey) = Inr None
   \<Longrightarrow> loadBonding env mintKey = Inl (Error ''Bonding curve not found'')"
  by (simp add: loadBonding_def)

lemma loadBonding_short:
  assumes "getAccountInfo env (getBondingPda env mintKey) = Inr (Some acc)"
    and "length (data acc) < 48"
  shows "\<exists>e. loadBonding env mintKey = Inl e"
proof -
  have last_read: "\<exists>e. readBigUInt64LE (data acc) 40 = Inl e"
    using assms(2) by (simp add: readBigUInt64LE_def)
  have chain: "\<exists>e. bind_result r1 (\<lambda>v1. bind_result r2 (\<lambda>v2. bind_result r3 (\<lambda>v3.
                 bind_result r4 (\<lambda>v4. bind_result r5 (\<lambda>v5. f v1 v2 v3 v4 v5))))) = Inl e"
    if "\<exists>e. r5 = Inl e"
    for r1 r2 r3 r4 r5 :: "js_error + int" and f :: "int \<Rightarrow> int \<Rightarrow> int \<Rightarrow> int \<Rightarrow> int \<Rightarrow> js_error + BondingInfo"
    using that by (auto simp: bind_result_def split: sum.splits)
  show ?thesis
    unfolding loadBonding_def assms(1) using chain [OF last_read] by simp
qed

text \<open>
  C10: whenever loading the bonding-curve state throws, \<^verbatim>\<open>isAmmCompleted\<close> returns true
  and \<^verbatim>\<open>getTradeMode\<close> returns \<^verbatim>\<open>"amm"\<close>, so that \<^verbatim>\<open>autoBuy\<close> and \<^verbatim>\<open>autoSell\<close> are the
  calls of \<^verbatim>\<open>ammBuy\<close> and \<^verbatim>\<open>ammSell\<close>. Loading throws when the address is not a public
  key, when the account query throws, when the account does not exist, and when its
  data is too short for the five reserve fields (fewer than 48 bytes).
\<close>

theorem unreadable_curve_routes_to_amm:
  assumes "(\<exists>e. PublicKey_from_string tokenAddr = Inl e)
           \<or> (\<exists>mintKey. PublicKey_from_string tokenAddr = Inr mintKey
                 \<and> ((\<exists>e. loadBonding env mintKey = Inl e)
                      \<or> (\<exists>e. getAccountInfo env (getBondingPda env mintKey) = Inl e)
                      \<or> getAccountInfo env (getBondingPda env mintKey) = Inr None
                      \<or> (\<exists>acc. getAccountInfo env (getBondingPda env mintKey) = Inr (Some acc)
                                \<and> length (data acc) < 48)))"
  shows "isAmmCompleted env tokenAddr
       \<and> getTradeMode env tokenAddr = ''amm''
       \<and> autoBuy env trader tokenAddr total' tradeOpt = ammBuy env trader tokenAddr total' tradeOpt
       \<and> autoSell env trader tokenAddr total' tradeOpt = ammSell env trader tokenAddr total' tradeOpt"
proof -
  have fails: "\<exists>e'. bind_result (PublicKey_from_string tokenAddr) (loadBonding env) = Inl e'"
    using assms loadBonding_query_error loadBonding_missing loadBonding_short
    by (fastforce simp: bind_result_def)
  then have a: "isAmmCompleted env tokenAddr"
    by (auto simp: isAmmCompleted_def)
  then have m: "getTradeMode env tokenAddr = ''amm''" by (rule getTradeMode_amm)
  show ?thesis using a m by (simp add: autoBuy_def autoSell_def)
qed

theorem unreadable_curve_routes_to_amm_witness:
  "isAmmCompleted empty_ledger_environment sample_token
   \<and> getTradeMode empty_ledger_environment sample_token = ''amm''
   \<and> autoBuy empty_ledger_environment sample_trader sample_token 100000000 sample_options
       = Some (Inl (Error ''AMM pool not found''), sample_trader)
   \<and> autoSell empty_ledger_environment sample_trader sample_token 100000000 sample_options
       = Some (Inl (Error ''AMM pool not found''), sample_trader)"
proof -
  let ?env = empty_ledger_environment
  have missing: "getAccountInfo ?env (getBondingPda ?env SOL_MINT) = Inr None"
    by (simp add: empty_ledger_environment_def)
  have pool: "getAmmPoolInfo ?env SOL_MINT = Inl (Error ''AMM pool not found'')"
    by (simp add: getAmmPoolInfo_def empty_ledger_environment_def Let_def)
  have b: "ammBuy ?env sample_trader sample_token 100000000 sample_options
           = Some (Inl (Error ''AMM pool not found''), sample_trader)"
    by (simp add: ammBuy_def sample_token_key pool)
  have s: "ammSell ?env sample_trader sample_token 100000000 sample_options
           = Some (Inl (Error ''AMM pool not found''), sample_trader)"
    by (simp add: ammSell_def sample_token_key pool)
  show ?thesis
    using unreadable_curve_routes_to_amm
      [of sample_token ?env sample_trader 100000000 sample_options]
      sample_token_key missing b s
    by simp
qed

end
